theory Spec2Isabelle
  imports Complex_Main "HOL-Library.Word" "HOL-Library.AList"
begin

unbundle bit_operations_syntax

section \<open>Common conventions\<close>

text \<open>
  The development embeds the analysis orchestration (\<^verbatim>\<open>src/src/Analysis.cpp\<close>) and the
  energy-calibration fitting code (\<^verbatim>\<open>src/src/EnergyCal.cpp\<close>).

  \<^item> \<^verbatim>\<open>int32_t\<close> is \<^typ>\<open>32 word\<close>; its value is read with \<^const>\<open>sint\<close>.
  \<^item> \<^verbatim>\<open>size_t\<close> and container sizes are \<^typ>\<open>nat\<close>.
  \<^item> \<^verbatim>\<open>float\<close> and \<^verbatim>\<open>double\<close> values are \<^typ>\<open>real\<close>: the number denoted, with
    exact arithmetic (no rounding, no NaN, no infinities). The narrowing
    \<^verbatim>\<open>static_cast<float>\<close> is kept visible as a parameter where the code performs it.
  \<^item> A thrown \<^verbatim>\<open>std::runtime_error\<close> is the value \<open>runtime_error msg\<close>; a function
    that may throw returns \<open>exn + 'a\<close>. An operation whose behaviour C++ leaves undefined
    (a write outside a matrix, an integer division by zero) ends the function with
    \<open>fault msg\<close>.
  \<^item> The external identification engine is a parameter: a function from the calls issued
    so far and the present call to the returned status code.
\<close>

datatype exn = runtime_error (what: string) | fault (what: string)

fun string_of_nat :: "nat \<Rightarrow> string" where
  "string_of_nat n =
     (if n < 10 then [char_of (48 + n)]
      else string_of_nat (n div 10) @ [char_of (48 + n mod 10)])"

declare string_of_nat.simps [simp del]

definition to_string :: "32 word \<Rightarrow> string" where
  \<comment> \<open>\<^verbatim>\<open>std::to_string\<close> on an \<^verbatim>\<open>int32_t\<close>\<close>
  "to_string v =
     (if sint v < 0 then CHR ''-'' # string_of_nat (nat (- sint v))
      else string_of_nat (nat (sint v)))"

definition append_path :: "string \<Rightarrow> string \<Rightarrow> string" where
  \<comment> \<open>\<^verbatim>\<open>SpecUtils::append_path\<close> (library code): joins two path components.\<close>
  "append_path base leaf = base @ ''/'' @ leaf"


section \<open>Energy-calibration fitting\<close>

text \<open>
  \<^verbatim>\<open>EnergyCal::RecalPeakInfo\<close> (\<^verbatim>\<open>EnergyCal.h\<close>, line 53).
\<close>

record RecalPeakInfo =
  peakMean :: real
  peakMeanUncert :: real
  peakMeanBinNumber :: real
  photopeakEnergy :: real

text \<open>
  Library code the fitting functions rely on: \<open>lu_invert\<close> is the LU factorization and
  substitution of Boost uBLAS behind \<^verbatim>\<open>matrix_invert\<close> (\<open>None\<close> when the factorization
  reports a singular matrix, otherwise the inverse, of the same dimensions); \<open>to_float\<close>
  is the narrowing \<^verbatim>\<open>static_cast<float>\<close>; the last two are the SpecUtils functions of the
  same names.
\<close>

record numerics =
  lu_invert :: "real list list \<Rightarrow> real list list option"
  to_float :: "real \<Rightarrow> real"
  correction_due_to_dev_pairs :: "real \<Rightarrow> (real \<times> real) list \<Rightarrow> real"
  deviation_pair_correction :: "real \<Rightarrow> (real \<times> real) list \<Rightarrow> real"

text \<open>
  Matrices are lists of rows. \<open>normal_matrix n A\<close> is \<^verbatim>\<open>prod(trans(A), A)\<close> and
  \<open>normal_vector n A b\<close> is \<^verbatim>\<open>prod(trans(A), b)\<close> for a matrix \<open>A\<close> with \<open>n\<close> columns;
  \<open>mat_vec C v\<close> is \<^verbatim>\<open>prod(C, v)\<close>.
\<close>

definition normal_matrix :: "nat \<Rightarrow> real list list \<Rightarrow> real list list" where
  "normal_matrix n A = map (\<lambda>i. map (\<lambda>j. sum_list (map (\<lambda>row. row ! i * row ! j) A)) [0..<n]) [0..<n]"

definition normal_vector :: "nat \<Rightarrow> real list list \<Rightarrow> real list \<Rightarrow> real list" where
  "normal_vector n A b = map (\<lambda>i. sum_list (map (\<lambda>(row, y). row ! i * y) (zip A b))) [0..<n]"

definition mat_vec :: "real list list \<Rightarrow> real list \<Rightarrow> real list" where
  "mat_vec C v = map (\<lambda>row. sum_list (map (\<lambda>(c, x). c * x) (zip row v))) C"

definition matrix_invert :: "numerics \<Rightarrow> real list list \<Rightarrow> real list list option" where
  "matrix_invert nm input_matrix = lu_invert nm input_matrix"

text \<open>\<^verbatim>\<open>std::vector::resize(n, 0.0)\<close>.\<close>

definition resize :: "nat \<Rightarrow> real list \<Rightarrow> real list" where
  "resize n xs = take n xs @ replicate (n - length xs) 0"

text \<open>The basis functions \<^verbatim>\<open>poly_coef_fcn\<close> and \<^verbatim>\<open>frf_coef_fcn\<close> (lines 148--159).\<close>

definition poly_coef_fcn :: "nat \<Rightarrow> real \<Rightarrow> nat \<Rightarrow> real" where
  "poly_coef_fcn order channel nchannel = channel ^ order"

definition frf_coef_fcn :: "nat \<Rightarrow> real \<Rightarrow> nat \<Rightarrow> real" where
  "frf_coef_fcn order channel nchannel =
     (let x = channel / real nchannel
      in if order = 4 then 1 / (1 + 60 * x) else x ^ order)"

subsection \<open>Fitting from peaks\<close>

text \<open>
  The three \<^verbatim>\<open>float\<close> vectors filled at lines 189--195: mean bin, true energy and
  energy uncertainty of a peak.
\<close>

definition mean_bin :: "numerics \<Rightarrow> RecalPeakInfo \<Rightarrow> real" where
  "mean_bin nm p = to_float nm (peakMeanBinNumber p)"

definition true_energy :: "numerics \<Rightarrow> RecalPeakInfo \<Rightarrow> real" where
  "true_energy nm p = to_float nm (photopeakEnergy p)"

definition energy_uncert :: "numerics \<Rightarrow> RecalPeakInfo \<Rightarrow> real" where
  "energy_uncert nm p = to_float nm (true_energy nm p * peakMeanUncert p / max (peakMean p) 1)"

text \<open>
  One round of the loop of lines 206--227, for one peak: the row of the design matrix, with
  a column for each coefficient that is fitted, and the entry of the right-hand side, from
  which the terms of the fixed coefficients are subtracted.
\<close>

definition design_row ::
  "numerics \<Rightarrow> bool list \<Rightarrow> nat \<Rightarrow> (nat \<Rightarrow> real \<Rightarrow> nat \<Rightarrow> real) \<Rightarrow> RecalPeakInfo \<Rightarrow> real list"
where
  "design_row nm fitfor nchannels coeffcn p =
     map (\<lambda>coef_index. coeffcn coef_index (mean_bin nm p) nchannels / \<bar>energy_uncert nm p\<bar>)
         (filter (\<lambda>coef_index. fitfor ! coef_index) [0..<length fitfor])"

definition target_entry ::
  "numerics \<Rightarrow> bool list \<Rightarrow> nat \<Rightarrow> (real \<times> real) list \<Rightarrow> real list
     \<Rightarrow> (nat \<Rightarrow> real \<Rightarrow> nat \<Rightarrow> real) \<Rightarrow> RecalPeakInfo \<Rightarrow> real"
where
  "target_entry nm fitfor nchannels dev_pairs coefs coeffcn p =
     (let data_y0 = true_energy nm p - correction_due_to_dev_pairs nm (true_energy nm p) dev_pairs;
          data_y = foldl (\<lambda>y coef_index.
                            if fitfor ! coef_index then y
                            else y - coefs ! coef_index * coeffcn coef_index (mean_bin nm p) nchannels)
                         data_y0 [0..<length fitfor]
      in data_y / \<bar>energy_uncert nm p\<bar>)"

text \<open>The loop of lines 242--254 that stores the solution; \<open>col\<close> counts the fitted coefficients.\<close>

fun store_solution ::
  "numerics \<Rightarrow> bool list \<Rightarrow> nat \<Rightarrow> nat \<Rightarrow> real list \<Rightarrow> real list list
     \<Rightarrow> real list \<times> real list \<Rightarrow> real list \<times> real list"
where
  "store_solution nm [] col coef_index a C (coefs, coefs_uncert) = (coefs, coefs_uncert)"
| "store_solution nm (f # fs) col coef_index a C (coefs, coefs_uncert) =
     (if f
      then store_solution nm fs (col + 1) (coef_index + 1) a C
             (coefs[coef_index := to_float nm (a ! col)],
              coefs_uncert[coef_index := to_float nm (sqrt (C ! col ! col))])
      else store_solution nm fs col (coef_index + 1) a C
             (coefs, coefs_uncert[coef_index := 0]))"

text \<open>The chi-square of lines 256--264.\<close>

definition chi2_of ::
  "numerics \<Rightarrow> bool list \<Rightarrow> nat \<Rightarrow> (real \<times> real) list \<Rightarrow> real list
     \<Rightarrow> (nat \<Rightarrow> real \<Rightarrow> nat \<Rightarrow> real) \<Rightarrow> RecalPeakInfo list \<Rightarrow> real"
where
  "chi2_of nm fitfor nchannels dev_pairs coefs coeffcn peakinfos =
     sum_list (map (\<lambda>p.
        let y0 = sum_list (map (\<lambda>i. coefs ! i * coeffcn i (mean_bin nm p) nchannels) [0..<length fitfor]);
            y_pred = y0 + deviation_pair_correction nm y0 dev_pairs
        in ((y_pred - true_energy nm p) / energy_uncert nm p) ^ 2) peakinfos)"

text \<open>
  \<^verbatim>\<open>fit_energy_cal_imp\<close> (lines 162--267). The result is the chi-square with the final
  contents of the in-out vectors \<^verbatim>\<open>coefs\<close> and \<^verbatim>\<open>coefs_uncert\<close>.
\<close>

definition fit_energy_cal_imp ::
  "numerics \<Rightarrow> RecalPeakInfo list \<Rightarrow> bool list \<Rightarrow> nat \<Rightarrow> (real \<times> real) list
     \<Rightarrow> real list \<Rightarrow> real list \<Rightarrow> (nat \<Rightarrow> real \<Rightarrow> nat \<Rightarrow> real)
     \<Rightarrow> exn + (real \<times> real list \<times> real list)"
where
  "fit_energy_cal_imp nm peakinfos fitfor nchannels dev_pairs coefs coefs_uncert coeffcn =
     (let npeaks = length peakinfos;
          nparsfit = length (filter (\<lambda>b. b) fitfor)
      in if npeaks < 1 then Inl (runtime_error ''Must have at least one peak'')
         else if nparsfit < 1 then Inl (runtime_error ''Must fit for at least one coefficient'')
         else if nparsfit > npeaks
           then Inl (runtime_error ''Must have at least as many peaks as coefficients fitting for'')
         else if nparsfit \<noteq> length fitfor \<and> length coefs \<noteq> length fitfor
           then Inl (runtime_error ''You must supply input coefficient when any of the coefficients are fixed'')
         else
           let A = map (design_row nm fitfor nchannels coeffcn) peakinfos;
               b = map (target_entry nm fitfor nchannels dev_pairs coefs coeffcn) peakinfos;
               alpha = normal_matrix nparsfit A
           in case matrix_invert nm alpha of
                None \<Rightarrow> Inl (runtime_error ''Trouble inverting least linear squares matrix'')
              | Some C \<Rightarrow>
                  let beta = normal_vector nparsfit A b;
                      a = mat_vec C beta;
                      (coefs1, coefs_uncert1) =
                        store_solution nm fitfor 0 0 a C
                          (resize (length fitfor) coefs, resize (length fitfor) coefs_uncert)
                  in Inr (chi2_of nm fitfor nchannels dev_pairs coefs1 coeffcn peakinfos,
                          coefs1, coefs_uncert1))"

definition fit_energy_cal_frf ::
  "numerics \<Rightarrow> RecalPeakInfo list \<Rightarrow> bool list \<Rightarrow> nat \<Rightarrow> (real \<times> real) list
     \<Rightarrow> real list \<Rightarrow> real list \<Rightarrow> exn + (real \<times> real list \<times> real list)"
where
  "fit_energy_cal_frf nm peaks fitfor nchannels dev_pairs coefs uncert =
     fit_energy_cal_imp nm peaks fitfor nchannels dev_pairs coefs uncert frf_coef_fcn"

definition fit_energy_cal_poly ::
  "numerics \<Rightarrow> RecalPeakInfo list \<Rightarrow> bool list \<Rightarrow> nat \<Rightarrow> (real \<times> real) list
     \<Rightarrow> real list \<Rightarrow> real list \<Rightarrow> exn + (real \<times> real list \<times> real list)"
where
  "fit_energy_cal_poly nm peaks fitfor nchannels dev_pairs coefs uncert =
     fit_energy_cal_imp nm peaks fitfor nchannels dev_pairs coefs uncert poly_coef_fcn"

subsection \<open>Fitting from channel energies\<close>

text \<open>The loop of lines 288--290: \<open>True\<close> when it finds no pair out of order.\<close>

fun energies_increasing :: "real list \<Rightarrow> bool" where
  "energies_increasing (x # y # zs) = (if x \<ge> y then False else energies_increasing (y # zs))"
| "energies_increasing _ = True"

text \<open>
  The value the code computes for entry \<open>i\<close> from the coefficients (lines 326--328), with
  the basis function called as the code calls it: the row index first, the column index
  second.
\<close>

definition fitted_value :: "(nat \<Rightarrow> real \<Rightarrow> nat \<Rightarrow> real) \<Rightarrow> nat \<Rightarrow> nat \<Rightarrow> real list \<Rightarrow> nat \<Rightarrow> real" where
  "fitted_value coeffcn ncoeffs nchannel coefs i =
     sum_list (map (\<lambda>col. coefs ! col * coeffcn i (real col) nchannel) [0..<ncoeffs])"

definition channel_design :: "(nat \<Rightarrow> real \<Rightarrow> nat \<Rightarrow> real) \<Rightarrow> nat \<Rightarrow> nat \<Rightarrow> real list list" where
  "channel_design coeffcn ncoeffs nenergies =
     map (\<lambda>row. map (\<lambda>col. coeffcn row (real col) (nenergies - 1) / 1) [0..<ncoeffs]) [0..<nenergies]"

text \<open>\<^verbatim>\<open>fit_from_channel_energies_imp\<close> (lines 270--333): the returned value and \<^verbatim>\<open>coefs\<close>.\<close>

definition fit_from_channel_energies_imp ::
  "numerics \<Rightarrow> nat \<Rightarrow> real list \<Rightarrow> (nat \<Rightarrow> real \<Rightarrow> nat \<Rightarrow> real) \<Rightarrow> exn + (real \<times> real list)"
where
  "fit_from_channel_energies_imp nm ncoeffs channel_energies coeffcn =
     (if ncoeffs < 2
      then Inl (runtime_error ''fit_from_channel_energies_imp: You must request at least two coefficients'')
      else if ncoeffs \<ge> 6
      then Inl (runtime_error ''fit_from_channel_energies_imp: You must request less than 6 coefficients'')
      else
        let nenergies = length channel_energies
        in if nenergies \<le> 6
           then Inl (runtime_error ''fit_from_channel_energies_imp: Input energies must have at least 6 entries'')
           else
             let nchannel = nenergies - 1
             in if \<not> energies_increasing channel_energies
                then Inl (runtime_error ''fit_from_channel_energies_imp: Input energies must be stricktly increasing'')
                else
                  let A = channel_design coeffcn ncoeffs nenergies;
                      b = map (\<lambda>e. e / 1) channel_energies;
                      alpha = normal_matrix ncoeffs A
                  in case matrix_invert nm alpha of
                       None \<Rightarrow> Inl (runtime_error ''Trouble inverting least linear squares matrix'')
                     | Some C \<Rightarrow>
                         let beta = normal_vector ncoeffs A b;
                             a = mat_vec C beta;
                             coefs = map (\<lambda>col. to_float nm (a ! col)) [0..<ncoeffs];
                             avrgdiffs = sum_list (map (\<lambda>i. \<bar>fitted_value coeffcn ncoeffs nchannel coefs i
                                                                - channel_energies ! i\<bar>) [0..<nenergies])
                         in Inr (avrgdiffs / real nenergies, coefs))"



subsection \<open>Fitting from channel and energy pairs\<close>

text \<open>
  An assignment \<^verbatim>\<open>A(row, col) = v\<close> to one row of a matrix: outside the columns of the
  matrix it is undefined behaviour (uBLAS raises \<^verbatim>\<open>bad_index\<close> when its checks are on).
\<close>

definition write_entry :: "real list \<Rightarrow> nat \<Rightarrow> real \<Rightarrow> exn + real list" where
  "write_entry row col v =
     (if col < length row then Inr (row[col := v])
      else Inl (fault ''matrix column index out of range''))"

text \<open>\<^verbatim>\<open>fit_for_poly_coefs\<close> (lines 70--103).\<close>

definition fit_for_poly_coefs :: "numerics \<Rightarrow> (real \<times> real) list \<Rightarrow> nat \<Rightarrow> exn + real list" where
  "fit_for_poly_coefs nm channels_energies poly_terms =
     (let A = map (\<lambda>ce. map (\<lambda>col. fst ce ^ col) [0..<poly_terms]) channels_energies;
          b = map snd channels_energies;
          alpha = normal_matrix poly_terms A
      in case matrix_invert nm alpha of
           None \<Rightarrow> Inl (runtime_error ''fit_for_poly_coefs(...): trouble inverting matrix'')
         | Some C \<Rightarrow>
             let beta = normal_vector poly_terms A b;
                 a = mat_vec C beta
             in Inr (map (\<lambda>coef. to_float nm (a ! coef)) [0..<poly_terms]))"

text \<open>
  The rows of the design matrix of \<^verbatim>\<open>fit_for_fullrangefraction_coefs\<close> (lines 119--128):
  a row of \<open>polyterms\<close> entries, the powers written to columns 0 to
  \<open>min 4 polyterms - 1\<close>, and then, when \<open>polyterms > 4\<close>, the assignment to column 5.
  The entries start out unwritten; \<open>0\<close> stands for that.
\<close>

definition frf_design_row :: "nat \<Rightarrow> nat \<Rightarrow> real \<Rightarrow> exn + real list" where
  "frf_design_row polyterms nchannels channel =
     (let x = channel / real nchannels;
          row = foldl (\<lambda>r col. r[col := x ^ col]) (replicate polyterms 0) [0..<min 4 polyterms]
      in if polyterms > 4 then write_entry row 5 (1 / (1 + 60 * x)) else Inr row)"

fun frf_design :: "nat \<Rightarrow> nat \<Rightarrow> (real \<times> real) list \<Rightarrow> exn + real list list" where
  "frf_design polyterms nchannels [] = Inr []"
| "frf_design polyterms nchannels (ce # rest) =
     (case frf_design_row polyterms nchannels (fst ce) of
        Inl e \<Rightarrow> Inl e
      | Inr row \<Rightarrow>
          (case frf_design polyterms nchannels rest of
             Inl e \<Rightarrow> Inl e
           | Inr rows \<Rightarrow> Inr (row # rows)))"

text \<open>\<^verbatim>\<open>fit_for_fullrangefraction_coefs\<close> (lines 106--145).\<close>

definition fit_for_fullrangefraction_coefs ::
  "numerics \<Rightarrow> (real \<times> real) list \<Rightarrow> nat \<Rightarrow> nat \<Rightarrow> exn + real list"
where
  "fit_for_fullrangefraction_coefs nm channels_energies nchannels nterms =
     (let polyterms = min nterms 5
      in case frf_design polyterms nchannels channels_energies of
           Inl e \<Rightarrow> Inl e
         | Inr A \<Rightarrow>
             let b = map snd channels_energies;
                 alpha = normal_matrix polyterms A
             in case matrix_invert nm alpha of
                  None \<Rightarrow> Inl (runtime_error ''fit_for_fullrangefraction_coefs(...): trouble inverting matrix'')
                | Some C \<Rightarrow>
                    let beta = normal_vector polyterms A b;
                        a = mat_vec C beta
                    in Inr (map (\<lambda>coef. to_float nm (a ! coef)) [0..<polyterms]))"

text \<open>
  Fixtures: exact arithmetic with inverses of matrices of up to two rows, no deviation
  pairs; the peak of the K-40 style example (a peak found at channel 500 that belongs at
  661 keV); a strictly increasing array of seven channel energies.
\<close>

fun invert_small :: "real list list \<Rightarrow> real list list option" where
  "invert_small [] = Some []"
| "invert_small [[a]] = (if a = 0 then None else Some [[1 / a]])"
| "invert_small [[a, b], [c, d]] =
     (if a * d - b * c = 0 then None
      else Some [[d / (a * d - b * c), - b / (a * d - b * c)],
                 [- c / (a * d - b * c), a / (a * d - b * c)]])"
| "invert_small _ = None"

definition numerics_exact :: numerics where
  "numerics_exact =
     \<lparr> lu_invert = invert_small, to_float = (\<lambda>x. x),
       correction_due_to_dev_pairs = (\<lambda>e d. 0), deviation_pair_correction = (\<lambda>e d. 0) \<rparr>"

definition peak_661 :: RecalPeakInfo where
  "peak_661 = \<lparr> peakMean = 500, peakMeanUncert = 1, peakMeanBinNumber = 500, photopeakEnergy = 661 \<rparr>"


section \<open>The external engine and the engine-configuration cache\<close>

text \<open>How the raw search methods adjust the gain (\<^verbatim>\<open>Analysis.cpp\<close>, line 173).\<close>

datatype AutoGainAdjustType = NoAdjust | K40 | Th232

text \<open>The \<^verbatim>\<open>AnalysisMode\<close> argument of the streaming search calls.\<close>

datatype AnalysisMode = INITIALIZE | ANALYZE | RESET

text \<open>
  A call into the engine, with the arguments that decide control flow in the caller.
  The spectra, times and output buffers passed along are not part of the trace.
\<close>

datatype engine_call =
    InitializeIsotopeIdRaw string string "32 word" "32 word" string
  | InitializeIsotopeIdCalibrated string string "32 word"
  | StaticIsotopeID
  | StreamingSearch AnalysisMode "int list"
  | PortalIsotopeID

type_synonym engine = "engine_call list \<Rightarrow> engine_call \<Rightarrow> 32 word"

text \<open>
  The file-scope variables \<^verbatim>\<open>g_gad_app_folder\<close>, \<^verbatim>\<open>g_gad_drf\<close>, \<^verbatim>\<open>g_gad_nchannel\<close>,
  \<^verbatim>\<open>g_gad_calibrated\<close>, \<^verbatim>\<open>g_num_detectors\<close>, \<^verbatim>\<open>g_gad_cal_adjust\<close> (lines 170--191),
  together with the trace of calls made into the engine (oldest first).
\<close>

record globals =
  g_gad_app_folder :: string
  g_gad_drf :: string
  g_gad_nchannel :: "32 word"
  g_gad_calibrated :: bool
  g_num_detectors :: "32 word"
  g_gad_cal_adjust :: AutoGainAdjustType
  engine_calls :: "engine_call list"

definition initial_globals :: globals where
  "initial_globals =
     \<lparr> g_gad_app_folder = ''gadras_isotope_id_run_directory'',
       g_gad_drf = '''',
       g_gad_nchannel = -1,
       g_gad_calibrated = False,
       g_num_detectors = -1,
       g_gad_cal_adjust = NoAdjust,
       engine_calls = [] \<rparr>"

definition call_engine :: "engine \<Rightarrow> engine_call \<Rightarrow> globals \<Rightarrow> 32 word \<times> globals" where
  "call_engine eng c g = (eng (engine_calls g) c, g\<lparr>engine_calls := engine_calls g @ [c]\<rparr>)"

definition calTag :: "AutoGainAdjustType \<Rightarrow> string" where
  "calTag cal_type = (case cal_type of NoAdjust \<Rightarrow> '''' | K40 \<Rightarrow> ''k'' | Th232 \<Rightarrow> ''t'')"

definition init_gadras_drf_raw ::
  "engine \<Rightarrow> string \<Rightarrow> 32 word \<Rightarrow> 32 word \<Rightarrow> AutoGainAdjustType \<Rightarrow> globals \<Rightarrow> 32 word \<times> globals"
where
  "init_gadras_drf_raw eng drf nchannel num_detectors cal_type g =
     (if drf = g_gad_drf g
         \<and> nchannel = g_gad_nchannel g
         \<and> g_gad_calibrated g = False
         \<and> g_num_detectors g = num_detectors
         \<and> g_gad_cal_adjust g = cal_type
      then (0, g)
      else
        let (rval, g1) = call_engine eng
               (InitializeIsotopeIdRaw (g_gad_app_folder g) drf nchannel num_detectors (calTag cal_type)) g
        in if rval = 0
           then (rval, g1\<lparr> g_gad_drf := drf, g_gad_nchannel := nchannel, g_gad_calibrated := False,
                           g_num_detectors := num_detectors, g_gad_cal_adjust := cal_type \<rparr>)
           else (rval, g1\<lparr> g_gad_drf := '''', g_gad_nchannel := -1, g_gad_calibrated := False,
                           g_num_detectors := -1, g_gad_cal_adjust := NoAdjust \<rparr>))"

definition init_gadras_drf_calibrated ::
  "engine \<Rightarrow> string \<Rightarrow> 32 word \<Rightarrow> globals \<Rightarrow> 32 word \<times> globals"
where
  "init_gadras_drf_calibrated eng drf nchannel g =
     (if drf = g_gad_drf g \<and> nchannel = g_gad_nchannel g \<and> g_gad_calibrated g = True
      then (0, g)
      else
        let (rval, g1) = call_engine eng
               (InitializeIsotopeIdCalibrated (g_gad_app_folder g) drf nchannel) g
        in if rval = 0
           then (rval, g1\<lparr> g_gad_drf := drf, g_gad_nchannel := nchannel, g_gad_calibrated := True \<rparr>)
           else (rval, g1\<lparr> g_gad_drf := '''', g_gad_nchannel := -1, g_gad_calibrated := False \<rparr>))"

text \<open>\<^verbatim>\<open>check_init_results\<close> (line 322): \<open>None\<close> when it returns, the exception otherwise.\<close>

definition check_init_results :: "32 word \<Rightarrow> exn option" where
  "check_init_results status =
     (if status = 0 then None
      else if status = -1 then Some (runtime_error ''DRF Init Error: error initializing application directory'')
      else if status = -2 then Some (runtime_error ''DRF Init Error: general error initializing application'')
      else if status = -3 then Some (runtime_error ''DRF Init Error: error initializing detector directory'')
      else if status = -4 then Some (runtime_error ''DRF Init Error: Detector.dat read error'')
      else if status = -5 then Some (runtime_error ''DRF Init Error: Response.win out of date'')
      else if status = -6 then Some (runtime_error ''DRF Init Error: Response.win does not exist'')
      else if status = -7 \<or> status = -8 \<or> status = -9
        then Some (runtime_error ''DRF Init Error: General response read errors'')
      else if sint status < 0
        then Some (runtime_error (''DRF Init Error: Unknown error code '' @ to_string status))
      else None)"

text \<open>Engine fixtures used to evaluate the model on concrete inputs.\<close>

definition engine_ok :: engine where
  "engine_ok h c = 0"

definition engine_init_fails :: engine where
  "engine_init_fails h c =
     (case c of InitializeIsotopeIdCalibrated a d n \<Rightarrow> -3
              | InitializeIsotopeIdRaw a d n k t \<Rightarrow> -3
              | _ \<Rightarrow> 0)"

definition count_init_calls :: "engine_call list \<Rightarrow> nat" where
  "count_init_calls cs =
     length (filter (\<lambda>c. case c of InitializeIsotopeIdRaw a d n k t \<Rightarrow> True
                                 | InitializeIsotopeIdCalibrated a d n \<Rightarrow> True
                                 | _ \<Rightarrow> False) cs)"


text \<open>Fixtures: the globals after an initialization that the engine accepts, or rejects.\<close>

definition globals_raw_ok :: globals where
  "globals_raw_ok = snd (init_gadras_drf_raw engine_ok ''drfs/Detective-EX'' 1024 4 K40 initial_globals)"

definition globals_calibrated_ok :: globals where
  "globals_calibrated_ok = snd (init_gadras_drf_calibrated engine_ok ''drfs/Detective-EX'' 1024 initial_globals)"

definition globals_raw_failed :: globals where
  "globals_raw_failed = snd (init_gadras_drf_raw engine_init_fails ''drfs/Detective-EX'' 1024 4 K40 initial_globals)"

definition globals_calibrated_failed :: globals where
  "globals_calibrated_failed = snd (init_gadras_drf_calibrated engine_init_fails ''drfs/Detective-EX'' 1024 globals_raw_ok)"

section \<open>Analysis results and their JSON form\<close>

text \<open>
  \<^verbatim>\<open>Analysis::AnalysisOutput\<close> (\<^verbatim>\<open>Analysis.h\<close>, line 84). The \<^verbatim>\<open>spec_file\<close> member, a
  pointer to the spectrum file shown to the user, records only whether a new file object
  was made (\<open>Some True\<close>), the input file is referenced (\<open>Some False\<close>), or it is null.
\<close>

record AnalysisOutput =
  ana_number :: nat
  drf_used :: string
  gadras_intialization_error :: "32 word"
  gadras_analysis_error :: "32 word"
  error_message :: string
  analysis_warnings :: "string list"
  stuff_of_interest :: real
  rate_not_norm :: real
  isotopes :: string
  chi_sqr :: real
  alarm_basis_duration :: real
  isotope_names :: "string list"
  isotope_types :: "string list"
  isotope_count_rates :: "real list"
  isotope_confidences :: "real list"
  isotope_confidence_strs :: "string list"
  spec_file :: "bool option"

text \<open>The constructor \<^verbatim>\<open>AnalysisOutput::AnalysisOutput()\<close> (line 2518).\<close>

definition AnalysisOutput_ctor :: AnalysisOutput where
  "AnalysisOutput_ctor =
     \<lparr> ana_number = 0, drf_used = '''',
       gadras_intialization_error = -999, gadras_analysis_error = -999,
       error_message = '''', analysis_warnings = [],
       stuff_of_interest = 0, rate_not_norm = 0, isotopes = '''',
       chi_sqr = -1, alarm_basis_duration = -1,
       isotope_names = [], isotope_types = [], isotope_count_rates = [],
       isotope_confidences = [], isotope_confidence_strs = [],
       spec_file = None \<rparr>"

text \<open>
  JSON values as \<^verbatim>\<open>Wt::Json\<close> builds them. An object is an association list with one
  entry for each key; \<^verbatim>\<open>obj["k"] = v\<close> is \<^const>\<open>AList.update\<close>.
\<close>

datatype json = JInt "32 word" | JNum real | JStr string | JArr "json list"
  | JObj "(string \<times> json) list"

definition isotope_record :: "AnalysisOutput \<Rightarrow> nat \<Rightarrow> (string \<times> json) list" where
  "isotope_record r i =
     AList.update ''confidenceStr'' (JStr (isotope_confidence_strs r ! i))
       (AList.update ''confidence'' (JNum (isotope_confidences r ! i))
         (AList.update ''countRate'' (JNum (isotope_count_rates r ! i))
           (AList.update ''type'' (JStr (isotope_types r ! i))
             (AList.update ''name'' (JStr (isotope_names r ! i)) []))))"

definition num_isotopes :: "AnalysisOutput \<Rightarrow> nat" where
  "num_isotopes r =
     min (min (min (min (min (length (isotope_names r)) (length (isotope_names r)))
                        (length (isotope_types r)))
                   (length (isotope_count_rates r)))
              (length (isotope_confidences r)))
         (length (isotope_confidence_strs r))"

definition toJson :: "AnalysisOutput \<Rightarrow> (string \<times> json) list" where
  "toJson r =
     (let j0 = AList.update ''analysisError'' (JInt (gadras_analysis_error r)) [];
          j1 = (if error_message r \<noteq> ''''
                then AList.update ''errorMessage'' (JStr (error_message r)) j0 else j0)
      in if sint (gadras_intialization_error r) < 0 \<or> sint (gadras_analysis_error r) < 0
         then
           let j2 = AList.update ''code'' (JInt 6) j1
           in if sint (gadras_intialization_error r) < 0
              then AList.update ''initializationError'' (JInt (gadras_intialization_error r)) j2
              else j2
         else
           let j2 = AList.update ''code'' (JInt 0) j1;
               j3 = (if analysis_warnings r \<noteq> []
                     then AList.update ''analysisWarnings'' (JArr (map JStr (analysis_warnings r))) j2
                     else j2);
               j4 = AList.update ''drf'' (JStr (drf_used r)) j3;
               j5 = AList.update ''stuffOfInterest'' (JNum (stuff_of_interest r)) j4;
               j6 = AList.update ''isotopeString'' (JStr (isotopes r)) j5;
               j7 = AList.update ''chi2'' (JNum (chi_sqr r)) j6;
               j8 = AList.update ''alarmBasisDuration'' (JNum (alarm_basis_duration r)) j7
           in AList.update ''isotopes''
                (JArr (map (\<lambda>i. JObj (isotope_record r i)) [0..<num_isotopes r])) j8)"

text \<open>Result fixtures.\<close>

definition output_cs137 :: AnalysisOutput where
  "output_cs137 =
     AnalysisOutput_ctor \<lparr> drf_used := ''Detective-EX'',
       gadras_intialization_error := 0, gadras_analysis_error := 0,
       analysis_warnings := [''Skipped checking energy calibration''],
       stuff_of_interest := 12, isotopes := ''Cs137(H)'', chi_sqr := 1, alarm_basis_duration := 30,
       isotope_names := [''Cs137''], isotope_types := [''Industrial''],
       isotope_count_rates := [250], isotope_confidences := [9],
       isotope_confidence_strs := [''H''] \<rparr>"

definition output_failed :: AnalysisOutput where
  "output_failed =
     AnalysisOutput_ctor \<lparr> drf_used := ''Detective-EX'',
       gadras_intialization_error := -3,
       error_message := ''DRF Init Error: error initializing detector directory'' \<rparr>"

section \<open>Spectrum files\<close>

text \<open>
  The spectrum-file classes belong to the SpecUtils library; the model keeps the results of
  the accessors the analysis code calls. A \<^verbatim>\<open>shared_ptr<const EnergyCalibration>\<close> is an
  index into the table of calibration objects (\<open>None\<close> is the null pointer), so that two
  pointers are equal exactly when they refer to the same object.
\<close>

datatype SourceType = IntrinsicActivity | Calibration | Background | Foreground | Unknown

datatype OccupancyStatus = NotOccupied | Occupied | UnknownOccupancyStatus

datatype EnergyCalType =
  Polynomial | FullRangeFraction | LowerChannelEdge | UnspecifiedUsingDefaultPolynomial
  | InvalidEquationType

record EnergyCalibration =
  cal_type :: EnergyCalType
  cal_valid :: bool
  coefficients :: "real list"
  deviation_pairs :: "(real \<times> real) list"
  num_channels :: nat
  channel_energies :: "real list option"
  lower_energy :: real
  upper_energy :: real

type_synonym cal_ptr = "nat option"

type_synonym cal_heap = "EnergyCalibration list"

definition deref :: "cal_heap \<Rightarrow> cal_ptr \<Rightarrow> EnergyCalibration option" where
  "deref h p = (case p of None \<Rightarrow> None | Some a \<Rightarrow> if a < length h then Some (h ! a) else None)"

record Measurement =
  sample_number :: int
  detector_name :: string
  source_type :: SourceType
  occupied :: OccupancyStatus
  num_gamma_channels :: nat
  real_time :: real
  contained_neutron :: bool
  energy_calibration :: cal_ptr

text \<open>
  \<open>file_num_gamma_channels\<close> is \<^verbatim>\<open>SpecFile::num_gamma_channels()\<close>, \<open>sample_numbers\<close> the
  \<^verbatim>\<open>std::set<int>\<close> of sample numbers in increasing order, \<open>detector_names\<close> the detector
  names.
\<close>

record SpecFile =
  measurements :: "Measurement list"
  file_num_gamma_channels :: nat
  sample_numbers :: "int list"
  detector_names :: "string list"
  cal_objects :: cal_heap

definition measurement :: "SpecFile \<Rightarrow> int \<Rightarrow> string \<Rightarrow> Measurement option" where
  \<comment> \<open>\<^verbatim>\<open>SpecFile::measurement(sample, detector name)\<close>\<close>
  "measurement f sample name =
     find (\<lambda>m. sample_number m = sample \<and> detector_name m = name) (measurements f)"

definition sample_measurements :: "SpecFile \<Rightarrow> int \<Rightarrow> Measurement list" where
  \<comment> \<open>\<^verbatim>\<open>SpecFile::sample_measurements(sample)\<close>\<close>
  "sample_measurements f sample = filter (\<lambda>m. sample_number m = sample) (measurements f)"

definition has_valid_cal :: "SpecFile \<Rightarrow> Measurement \<Rightarrow> bool" where
  \<comment> \<open>\<^verbatim>\<open>m->energy_calibration() && m->energy_calibration()->valid()\<close>\<close>
  "has_valid_cal f m =
     (case deref (cal_objects f) (energy_calibration m) of None \<Rightarrow> False | Some c \<Rightarrow> cal_valid c)"


section \<open>Analysis requests and result delivery\<close>

datatype AnalysisType = Simple | Search | Portal

text \<open>
  \<^verbatim>\<open>Analysis::AnalysisInput\<close> (\<^verbatim>\<open>Analysis.h\<close>, line 167). The callback is the identifier of
  the caller's closure, \<open>None\<close> for an empty \<^verbatim>\<open>std::function\<close>.
\<close>

record AnalysisInput =
  ana_number_in :: nat
  wt_app_id :: string
  drf_folder :: string
  input_warnings :: "string list"
  analysis_type :: AnalysisType
  input :: "SpecFile option"
  callback :: "nat option"

text \<open>
  What a strategy does with the result: call the callback in the analysis thread, or post
  it to the session of the web application through \<^verbatim>\<open>WServer::post\<close>.
\<close>

datatype event =
    Invoked nat AnalysisOutput
  | Posted string nat AnalysisOutput

text \<open>
  The block that ends each of \<^verbatim>\<open>do_simple_analysis\<close> (lines 834--858),
  \<^verbatim>\<open>do_search_analysis\<close> (lines 1765--1789) and \<^verbatim>\<open>do_portal_analysis\<close>
  (lines 2060--2084). \<open>server\<close> tells whether \<^verbatim>\<open>Wt::WServer::instance()\<close> is non-null.
\<close>

definition deliver :: "bool \<Rightarrow> AnalysisInput \<Rightarrow> AnalysisOutput \<Rightarrow> event list" where
  "deliver server inp result =
     (case callback inp of
        None \<Rightarrow> []
      | Some cb \<Rightarrow>
          if server \<and> wt_app_id inp \<noteq> '''' then [Posted (wt_app_id inp) cb result]
          else if wt_app_id inp = '''' then [Invoked cb result]
          else [])"

text \<open>The handler \<^verbatim>\<open>catch( std::exception &e ){ result.error_message = e.what(); }\<close>.\<close>

definition catch_exception :: "exn option \<times> AnalysisOutput \<times> globals \<Rightarrow> AnalysisOutput \<times> globals" where
  "catch_exception outcome =
     (case outcome of
        (None, result, g) \<Rightarrow> (result, g)
      | (Some e, result, g) \<Rightarrow> (result\<lparr>error_message := what e\<rparr>, g))"

text \<open>
  The parts of the strategies that only move spectra into and results out of the engine
  are parameters: \<open>static_stage\<close> is lines 493--827 of \<^verbatim>\<open>do_simple_analysis\<close> (energy
  calibration check, \<^verbatim>\<open>StaticIsotopeID\<close>, reading the isotope results), given the foreground
  and the backgrounds; \<open>search_results_stage\<close> is the merging of the per-window isotope
  results of \<^verbatim>\<open>do_search_analysis\<close> (lines 1593--1742), given the windows analysed;
  \<open>portal_stage\<close> is lines 1835--2045 of \<^verbatim>\<open>do_portal_analysis\<close>. Each of the first and
  the last returns the exception it throws, if any, with the result as far as it was filled.
\<close>

record stages =
  static_stage :: "Measurement \<Rightarrow> Measurement list \<Rightarrow> AnalysisOutput \<Rightarrow> globals
                     \<Rightarrow> exn option \<times> AnalysisOutput \<times> globals"
  search_results_stage :: "(real \<times> int list) list \<Rightarrow> AnalysisOutput \<Rightarrow> AnalysisOutput"
  portal_stage :: "AnalysisInput \<Rightarrow> AnalysisOutput \<Rightarrow> globals
                     \<Rightarrow> exn option \<times> AnalysisOutput \<times> globals"


text \<open>
  The result object as each strategy sets it up before its \<^verbatim>\<open>try\<close> block: lines 433--435
  (simple), 880--885 (search) and 1808--1816 (portal).
\<close>

definition simple_result :: "AnalysisInput \<Rightarrow> AnalysisOutput" where
  "simple_result inp =
     AnalysisOutput_ctor\<lparr>ana_number := ana_number_in inp, drf_used := drf_folder inp\<rparr>"

definition search_result :: "AnalysisInput \<Rightarrow> AnalysisOutput" where
  "search_result inp =
     AnalysisOutput_ctor\<lparr>ana_number := ana_number_in inp, drf_used := drf_folder inp,
       chi_sqr := -1, alarm_basis_duration := -1,
       spec_file := (case input inp of None \<Rightarrow> None | Some f \<Rightarrow> Some False)\<rparr>"

definition portal_result :: "AnalysisInput \<Rightarrow> AnalysisOutput" where
  "portal_result inp =
     AnalysisOutput_ctor\<lparr>ana_number := ana_number_in inp, drf_used := drf_folder inp,
       chi_sqr := -1, alarm_basis_duration := -1,
       spec_file := (case input inp of None \<Rightarrow> None | Some f \<Rightarrow> Some False),
       analysis_warnings :=
         [''Portal analysis is still under development - interpret results with care.'']\<rparr>"

section \<open>Simple analysis\<close>

text \<open>The loop over the measurements of \<^verbatim>\<open>do_simple_analysis\<close> (lines 451--472).\<close>

fun sort_measurements ::
  "nat \<Rightarrow> Measurement list \<Rightarrow> Measurement list \<times> Measurement list
     \<Rightarrow> exn + (Measurement list \<times> Measurement list)"
where
  "sort_measurements nchannel [] (backgrounds, foregrounds) = Inr (backgrounds, foregrounds)"
| "sort_measurements nchannel (m # ms) (backgrounds, foregrounds) =
     (if num_gamma_channels m \<noteq> nchannel
      then Inl (runtime_error ''Measurements somehow have different number of channels.'')
      else case source_type m of
          IntrinsicActivity \<Rightarrow>
            Inl (runtime_error ''Somehow an intrinsic or calibration spectrum made it to analysis'')
        | Calibration \<Rightarrow>
            Inl (runtime_error ''Somehow an intrinsic or calibration spectrum made it to analysis'')
        | Foreground \<Rightarrow> sort_measurements nchannel ms (backgrounds, foregrounds @ [m])
        | Unknown \<Rightarrow> sort_measurements nchannel ms (backgrounds, foregrounds @ [m])
        | Background \<Rightarrow> sort_measurements nchannel ms (backgrounds @ [m], foregrounds))"

text \<open>
  The checks of lines 441--481, in the order of the source. On success: the channel count,
  the backgrounds and the foregrounds.
\<close>

definition simple_checks ::
  "SpecFile option \<Rightarrow> exn + (nat \<times> Measurement list \<times> Measurement list)"
where
  "simple_checks input_file =
     (case input_file of
        None \<Rightarrow> Inl (runtime_error ''Invalid input SpecUtils::SpecFile ptr'')
      | Some f \<Rightarrow>
          let nmeas = length (measurements f) in
          if nmeas \<noteq> 1 \<and> nmeas \<noteq> 2 then Inl (runtime_error ''Invalid number of measurements'')
          else
            let nchannel = file_num_gamma_channels f in
            case sort_measurements nchannel (measurements f) ([], []) of
              Inl e \<Rightarrow> Inl e
            | Inr (backgrounds, foregrounds) \<Rightarrow>
                if length foregrounds \<noteq> 1
                then Inl (runtime_error ''Somehow we didnt send a single foreground to analysis'')
                else if length backgrounds > 1
                then Inl (runtime_error ''Somehow sent more than one background to analysis'')
                else if nchannel < 32 \<or> nchannel > 64 * 1024
                then Inl (runtime_error (''Invalid number of channels ('' @ string_of_nat nchannel @ '')''))
                else Inr (nchannel, backgrounds, foregrounds))"

text \<open>The \<^verbatim>\<open>try\<close> block of \<^verbatim>\<open>do_simple_analysis\<close> (lines 437--827).\<close>

definition simple_try ::
  "engine \<Rightarrow> stages \<Rightarrow> AnalysisInput \<Rightarrow> AnalysisOutput \<Rightarrow> globals
     \<Rightarrow> exn option \<times> AnalysisOutput \<times> globals"
where
  "simple_try eng st inp result g =
     (case simple_checks (input inp) of
        Inl e \<Rightarrow> (Some e, result, g)
      | Inr (nchannel, backgrounds, foregrounds) \<Rightarrow>
          let (init_code, g1) =
                init_gadras_drf_calibrated eng (append_path ''drfs'' (drf_folder inp)) (of_nat nchannel) g;
              result1 = result\<lparr>gadras_intialization_error := init_code\<rparr>
          in case check_init_results init_code of
               Some e \<Rightarrow> (Some e, result1, g1)
             | None \<Rightarrow> static_stage st (hd foregrounds) backgrounds result1 g1)"

definition do_simple_analysis ::
  "engine \<Rightarrow> stages \<Rightarrow> bool \<Rightarrow> AnalysisInput \<Rightarrow> globals \<Rightarrow> event list \<times> globals"
where
  "do_simple_analysis eng st server inp g =
     (let (result1, g1) = catch_exception (simple_try eng st inp (simple_result inp) g)
      in (deliver server inp result1, g1))"

section \<open>Search-mode analysis\<close>

definition stream_search_result_str :: "32 word \<Rightarrow> string" where
  "stream_search_result_str status =
     (if status = 0 then ''Energy calibration was not performed (e.g., calTag=)''
      else if status = 1 then ''Calibration was successful''
      else if status = -1 then ''Spectrum not suitable for energy calibration''
      else if status = -2 then ''The specified background peak was not found''
      else if status = -3 then ''There was a large error (based on chi-square) in the fit to the photopeak''
      else if status = -4 then ''There were large uncertainties in the peak characteristics''
      else ''Other code '' @ to_string status)"

text \<open>\<^verbatim>\<open>std::set::insert\<close> on a set kept as an increasing list.\<close>

definition set_insert :: "'a::linorder \<Rightarrow> 'a list \<Rightarrow> 'a list" where
  "set_insert x xs = (if x \<in> set xs then xs else insort x xs)"

text \<open>The lambda \<^verbatim>\<open>real_time_of_sample\<close> (lines 899--911).\<close>

definition real_time_of_sample :: "SpecFile \<Rightarrow> int \<Rightarrow> real" where
  "real_time_of_sample f sample =
     foldl (\<lambda>rt m. if has_valid_cal f m \<and> num_gamma_channels m \<ge> 32 then max rt (real_time m) else rt)
           0 (sample_measurements f sample)"

text \<open>
  What the first pass over the file collects (lines 914--984): the calibration chosen for
  each detector (a \<^verbatim>\<open>std::map\<close> from detector name to calibration pointer), the largest
  channel count, the background samples and the detectors with neutron data.
\<close>

record search_scan =
  energy_cals :: "(string \<times> nat) list"
  nchannels :: "32 word"
  background_samples :: "int list"
  neutron_detector_names :: "string list"

definition smax :: "32 word \<Rightarrow> 32 word \<Rightarrow> 32 word" where
  \<comment> \<open>\<^verbatim>\<open>std::max\<close> on \<^verbatim>\<open>int32_t\<close>\<close>
  "smax a b = (if sint a < sint b then b else a)"

definition energy_range :: "EnergyCalibration \<Rightarrow> real" where
  "energy_range c = \<bar>upper_energy c - lower_energy c\<bar>"

text \<open>The body of the loop over detector names, lines 931--975.\<close>

definition scan_detector :: "bool \<Rightarrow> SpecFile \<Rightarrow> int \<Rightarrow> search_scan \<Rightarrow> string \<Rightarrow> search_scan" where
  "scan_detector is_portal f sample s name =
     (case measurement f sample name of
        None \<Rightarrow> s
      | Some m \<Rightarrow>
          if is_portal \<and> \<not> (occupied m = NotOccupied \<or> source_type m = Background) then s
          else
            let s1 = (if contained_neutron m
                      then s\<lparr>neutron_detector_names := List.insert name (neutron_detector_names s)\<rparr>
                      else s);
                s2 = s1\<lparr>background_samples := set_insert sample (background_samples s1)\<rparr>
            in case energy_calibration m of
                 None \<Rightarrow> s2
               | Some cal \<Rightarrow>
                   (case deref (cal_objects f) (Some cal) of
                      None \<Rightarrow> s2
                    | Some c \<Rightarrow>
                        if cal_valid c \<and> num_gamma_channels m \<ge> 32 then
                          let prev = (case map_of (energy_cals s2) name of None \<Rightarrow> cal | Some p \<Rightarrow> p);
                              chosen =
                                (if prev \<noteq> cal then
                                   (case deref (cal_objects f) (Some prev) of
                                      None \<Rightarrow> prev
                                    | Some pc \<Rightarrow> if energy_range c > energy_range pc then cal else prev)
                                 else prev);
                              nch = (case deref (cal_objects f) (Some chosen) of
                                       None \<Rightarrow> nchannels s2
                                     | Some cc \<Rightarrow> smax (nchannels s2) (of_nat (num_channels cc)))
                          in s2\<lparr>energy_cals := AList.update name chosen (energy_cals s2), nchannels := nch\<rparr>
                        else s2))"

text \<open>
  The loop over the sample numbers, lines 927--984: in search mode it stops after the
  first sample that gave a calibration.
\<close>

fun scan_samples :: "bool \<Rightarrow> SpecFile \<Rightarrow> int list \<Rightarrow> search_scan \<Rightarrow> search_scan" where
  "scan_samples is_portal f [] s = s"
| "scan_samples is_portal f (sample # rest) s =
     (let s1 = foldl (scan_detector is_portal f sample) s (detector_names f)
      in if \<not> is_portal \<and> energy_cals s1 \<noteq> [] then s1
         else scan_samples is_portal f rest s1)"

text \<open>The search for the longest background sample, lines 1010--1020.\<close>

fun longest_background :: "SpecFile \<Rightarrow> int list \<Rightarrow> int \<times> real \<Rightarrow> int \<times> real" where
  "longest_background f [] acc = acc"
| "longest_background f (sample # rest) (longest_sample, longest_rt) =
     (let rt = real_time_of_sample f sample
      in if rt > 0 \<and> rt > longest_rt then longest_background f rest (sample, rt)
         else longest_background f rest (longest_sample, longest_rt))"

text \<open>Lines 1007--1049: a background of about a minute that covers all detectors is used alone.\<close>

definition select_background :: "SpecFile \<Rightarrow> nat \<Rightarrow> int list \<Rightarrow> int list" where
  "select_background f ndet bg =
     (if length bg > 1 then
        let (longest_sample, longest_rt) = longest_background f bg (-999999, -999.9)
        in if longest_rt > 55 then
             let nmeas_back = length (filter (\<lambda>m. num_gamma_channels m \<ge> 64 \<and> has_valid_cal f m)
                                             (sample_measurements f longest_sample))
             in if nmeas_back = ndet then [longest_sample] else bg
           else bg
      else bg)"

text \<open>
  The inner loop of lines 1529--1538, over the sample numbers that its iterator has yet to
  visit. The loop declares its own iterator, which starts at the first sample number, so
  the caller passes the whole list of sample numbers.
\<close>

fun accumulate_samples ::
  "SpecFile \<Rightarrow> int list \<Rightarrow> int list \<Rightarrow> real \<times> int list \<Rightarrow> real \<times> int list"
where
  "accumulate_samples f bg [] (time_sum, samples) = (time_sum, samples)"
| "accumulate_samples f bg (x # xs) (time_sum, samples) =
     (if \<not> (time_sum < 0.425) then (time_sum, samples)
      else if x \<in> set bg then accumulate_samples f bg xs (time_sum, samples)
      else accumulate_samples f bg xs (time_sum + real_time_of_sample f x, set_insert x samples))"

text \<open>
  The outer loop of lines 1520--1689, one round for each element of the sample numbers.
  \<open>remaining\<close> is the part of the sample numbers from the outer iterator on; the outer
  iterator is the one tested at line 1545, and it is not at the end inside the loop body.
  The result carries the list \<^verbatim>\<open>real_time_and_samples\<close>.
\<close>

fun analyze_windows ::
  "engine \<Rightarrow> SpecFile \<Rightarrow> int list \<Rightarrow> int list \<Rightarrow> (real \<times> int list) list \<Rightarrow> AnalysisOutput
     \<Rightarrow> globals \<Rightarrow> exn option \<times> (real \<times> int list) list \<times> AnalysisOutput \<times> globals"
where
  "analyze_windows eng f bg [] windows result g = (None, windows, result, g)"
| "analyze_windows eng f bg (sample_iter # remaining) windows result g =
     (let (time_sum, samples) = accumulate_samples f bg (sample_numbers f) (0, [])
      in if samples = []
         then (Some (runtime_error ''Logic-error: did the file only contain background?''),
               windows, result, g)
         else if time_sum \<le> 0.00001
         then (if sample_iter # remaining \<noteq> []
               then (Some (runtime_error ''Logic-error: zero-second time interval sum, but we didnt reach end of samples''),
                     windows, result, g)
               else (None, windows, result, g))
         else
           let windows1 = windows @ [(time_sum, samples)];
               (call_stat, g1) = call_engine eng (StreamingSearch ANALYZE samples) g
           in if sint call_stat < 0
              then (Some (runtime_error (''Failed to initialize StreamingSearch: ''
                                          @ stream_search_result_str call_stat)),
                    windows1, result\<lparr>gadras_analysis_error := call_stat\<rparr>, g1)
              else analyze_windows eng f bg remaining windows1 result g1)"

text \<open>
  Lines 1409--1752 once the engine is initialized: the two calls for the background, then,
  under the guard \<^verbatim>\<open>do_reset_ana\<close> whose destructor issues the \<^verbatim>\<open>RESET\<close> call however the
  block is left, the windows and the assembly of the result. The loop of lines 1172--1234,
  which brings the calibrations to one channel count, and the lambda \<^verbatim>\<open>fill_inputs\<close>, which
  sums and rebins the spectra of a set of samples into the buffers passed to the engine,
  are left out: for valid calibrations and a non-empty set of samples they do not throw.
\<close>

definition search_after_init ::
  "engine \<Rightarrow> stages \<Rightarrow> AnalysisInput \<Rightarrow> SpecFile \<Rightarrow> int list \<Rightarrow> AnalysisOutput \<Rightarrow> globals
     \<Rightarrow> exn option \<times> AnalysisOutput \<times> globals"
where
  "search_after_init eng st inp f bg result g =
     (let (call_stat, g1) = call_engine eng (StreamingSearch INITIALIZE bg) g
      in if sint call_stat < 0
         then (Some (runtime_error (''Failed to initialize StreamingSearch: ''
                                     @ stream_search_result_str call_stat)),
               result\<lparr>gadras_analysis_error := call_stat\<rparr>, g1)
         else
           let (call_stat2, g2) = call_engine eng (StreamingSearch ANALYZE bg) g1
           in if sint call_stat2 < 0
              then (Some (runtime_error (''Failed to analyze background in StreamingSearch: ''
                                          @ stream_search_result_str call_stat2)),
                    result\<lparr>gadras_analysis_error := call_stat2\<rparr>, g2)
              else
                let (ex, windows, result1, g3) =
                      analyze_windows eng f bg (sample_numbers f) [] result g2;
                    (reset_stat, g4) = call_engine eng (StreamingSearch RESET []) g3
                in case ex of
                     Some e \<Rightarrow> (Some e, result1, g4)
                   | None \<Rightarrow>
                       let result2 = search_results_stage st windows result1;
                           result3 = (if analysis_type inp = Portal
                                      then result2\<lparr>analysis_warnings := analysis_warnings result2 @
                                        [''The search-mode analysis algorithm was used for this RPM data, pending proper RPM replay implementation'']\<rparr>
                                      else result2);
                           result4 = result3\<lparr>analysis_warnings := analysis_warnings result3 @
                                        [''The displayed data has not been updated to the fit energy calibration, pending implementation.'']\<rparr>
                       in (None, result4\<lparr>gadras_analysis_error := 0\<rparr>, g4))"

text \<open>The \<^verbatim>\<open>try\<close> block of \<^verbatim>\<open>do_search_analysis\<close> (lines 893--1752).\<close>

definition search_try ::
  "engine \<Rightarrow> stages \<Rightarrow> AnalysisInput \<Rightarrow> AnalysisOutput \<Rightarrow> globals
     \<Rightarrow> exn option \<times> AnalysisOutput \<times> globals"
where
  "search_try eng st inp result g =
     (case input inp of
        None \<Rightarrow> (Some (runtime_error ''Invalid input SpecUtils::SpecFile ptr''), result, g)
      | Some f \<Rightarrow>
          let is_portal = (analysis_type inp = Portal);
              s = scan_samples is_portal f (sample_numbers f)
                    \<lparr> energy_cals = [], nchannels = 0, background_samples = [],
                      neutron_detector_names = [] \<rparr>
          in if energy_cals s = [] \<or> sint (nchannels s) < 32 \<or> background_samples s = []
             then (Some (runtime_error ''No gamma spectra with valid energy calibrations found.''),
                   result, g)
             else
               let ndet = length (energy_cals s);
                   (init_code, g1) =
                     init_gadras_drf_raw eng (append_path ''drfs'' (drf_folder inp)) (nchannels s)
                       (of_nat ndet) K40 g;
                   result1 = result\<lparr>gadras_intialization_error := init_code\<rparr>
               in case check_init_results init_code of
                    Some e \<Rightarrow> (Some e, result1, g1)
                  | None \<Rightarrow>
                      search_after_init eng st inp f
                        (select_background f ndet (background_samples s)) result1 g1)"

definition do_search_analysis ::
  "engine \<Rightarrow> stages \<Rightarrow> bool \<Rightarrow> AnalysisInput \<Rightarrow> globals \<Rightarrow> event list \<times> globals"
where
  "do_search_analysis eng st server inp g =
     (let (result1, g1) = catch_exception (search_try eng st inp (search_result inp) g)
      in (deliver server inp result1, g1))"


section \<open>Portal analysis and the dispatch of requests\<close>

text \<open>The \<^verbatim>\<open>try\<close> block of \<^verbatim>\<open>do_portal_analysis\<close> (lines 1818--2045).\<close>

definition portal_try ::
  "engine \<Rightarrow> stages \<Rightarrow> AnalysisInput \<Rightarrow> AnalysisOutput \<Rightarrow> globals
     \<Rightarrow> exn option \<times> AnalysisOutput \<times> globals"
where
  "portal_try eng st inp result g =
     (let (init_code, g1) = init_gadras_drf_calibrated eng (append_path ''drfs'' (drf_folder inp)) 0 g;
          result1 = result\<lparr>gadras_intialization_error := init_code\<rparr>
      in case check_init_results init_code of
           Some e \<Rightarrow> (Some e, result1, g1)
         | None \<Rightarrow> portal_stage st inp result1 g1)"

definition do_portal_analysis ::
  "engine \<Rightarrow> stages \<Rightarrow> bool \<Rightarrow> AnalysisInput \<Rightarrow> globals \<Rightarrow> event list \<times> globals"
where
  "do_portal_analysis eng st server inp g =
     (let (result1, g1) = catch_exception (portal_try eng st inp (portal_result inp) g)
      in (deliver server inp result1, g1))"

text \<open>The \<^verbatim>\<open>switch\<close> of \<^verbatim>\<open>do_analysis\<close> (lines 2117--2130) and its loop over a batch.\<close>

definition dispatch_request ::
  "engine \<Rightarrow> stages \<Rightarrow> bool \<Rightarrow> AnalysisInput \<Rightarrow> globals \<Rightarrow> event list \<times> globals"
where
  "dispatch_request eng st server inp g =
     (case analysis_type inp of
        Simple \<Rightarrow> do_simple_analysis eng st server inp g
      | Search \<Rightarrow> do_search_analysis eng st server inp g
      | Portal \<Rightarrow> do_portal_analysis eng st server inp g)"

fun process_batch ::
  "engine \<Rightarrow> stages \<Rightarrow> bool \<Rightarrow> AnalysisInput list \<Rightarrow> globals \<Rightarrow> event list \<times> globals"
where
  "process_batch eng st server [] g = ([], g)"
| "process_batch eng st server (inp # rest) g =
     (let (ev, g1) = dispatch_request eng st server inp g;
          (evs, g2) = process_batch eng st server rest g1
      in (ev @ evs, g2))"

text \<open>The outcome of the \<^verbatim>\<open>try\<close> block of the strategy that a request is dispatched to.\<close>

definition try_block ::
  "engine \<Rightarrow> stages \<Rightarrow> AnalysisInput \<Rightarrow> globals \<Rightarrow> exn option \<times> AnalysisOutput \<times> globals"
where
  "try_block eng st inp g =
     (case analysis_type inp of
        Simple \<Rightarrow> simple_try eng st inp (simple_result inp) g
      | Search \<Rightarrow> search_try eng st inp (search_result inp) g
      | Portal \<Rightarrow> portal_try eng st inp (portal_result inp) g)"

text \<open>
  The inputs that simple analysis is said to reject, in the words of the specification:
  a null file, other than one or two measurements, measurements whose channel counts
  differ from each other, a calibration or intrinsic-activity spectrum, not exactly one
  foreground (a measurement tagged foreground or of unknown source), more than one
  background, or a channel count below 32 or above 65536.
\<close>

definition is_foreground :: "Measurement \<Rightarrow> bool" where
  "is_foreground m = (source_type m = Foreground \<or> source_type m = Unknown)"

definition is_background :: "Measurement \<Rightarrow> bool" where
  "is_background m = (source_type m = Background)"

definition spec_simple_rejects :: "SpecFile option \<Rightarrow> bool" where
  "spec_simple_rejects input_file =
     (case input_file of
        None \<Rightarrow> True
      | Some f \<Rightarrow>
          (length (measurements f) \<noteq> 1 \<and> length (measurements f) \<noteq> 2)
          \<or> (\<exists>m1 \<in> set (measurements f). \<exists>m2 \<in> set (measurements f).
                 num_gamma_channels m1 \<noteq> num_gamma_channels m2)
          \<or> (\<exists>m \<in> set (measurements f).
                 source_type m = Calibration \<or> source_type m = IntrinsicActivity)
          \<or> length (filter is_foreground (measurements f)) \<noteq> 1
          \<or> length (filter is_background (measurements f)) > 1
          \<or> file_num_gamma_channels f < 32
          \<or> file_num_gamma_channels f > 65536)"

text \<open>
  What the library guarantees about \<^verbatim>\<open>SpecFile::num_gamma_channels()\<close>: it is the channel
  count of one of the file's measurements, when there are any.
\<close>

definition file_channels_consistent :: "SpecFile option \<Rightarrow> bool" where
  "file_channels_consistent input_file =
     (case input_file of
        None \<Rightarrow> True
      | Some f \<Rightarrow> measurements f = []
                  \<or> file_num_gamma_channels f \<in> num_gamma_channels ` set (measurements f))"

text \<open>Fixtures: stages that complete at once, and the spectrum files of the examples.\<close>

definition stages_trivial :: stages where
  "stages_trivial =
     \<lparr> static_stage = (\<lambda>fg bgs result g. (None, result\<lparr>gadras_analysis_error := 0\<rparr>, g)),
       search_results_stage = (\<lambda>windows result. result),
       portal_stage = (\<lambda>inp result g. (None, result\<lparr>gadras_analysis_error := 0\<rparr>, g)) \<rparr>"

definition cal_3MeV :: EnergyCalibration where
  "cal_3MeV = \<lparr> cal_type = Polynomial, cal_valid = True, coefficients = [0, 3],
                deviation_pairs = [], num_channels = 1024, channel_energies = Some [],
                lower_energy = 0, upper_energy = 3072 \<rparr>"

definition meas :: "int \<Rightarrow> SourceType \<Rightarrow> real \<Rightarrow> Measurement" where
  "meas n t rt =
     \<lparr> sample_number = n, detector_name = ''Aa1'', source_type = t, occupied = UnknownOccupancyStatus,
       num_gamma_channels = 1024, real_time = rt, contained_neutron = False,
       energy_calibration = Some 0 \<rparr>"

text \<open>One background of 120 s (sample 1) and nine foreground slices of 0.1 s (samples 2 to 10).\<close>

definition file_scenario_C :: SpecFile where
  "file_scenario_C =
     \<lparr> measurements = meas 1 Background 120 # map (\<lambda>n. meas n Foreground 0.1) [2, 3, 4, 5, 6, 7, 8, 9, 10],
       file_num_gamma_channels = 1024,
       sample_numbers = [1, 2, 3, 4, 5, 6, 7, 8, 9, 10],
       detector_names = [''Aa1''],
       cal_objects = [cal_3MeV] \<rparr>"

definition file_fore_back :: SpecFile where
  "file_fore_back =
     \<lparr> measurements = [meas 1 Foreground 100, meas 2 Background 300],
       file_num_gamma_channels = 1024,
       sample_numbers = [1, 2],
       detector_names = [''Aa1''],
       cal_objects = [cal_3MeV] \<rparr>"

definition request :: "AnalysisType \<Rightarrow> string \<Rightarrow> SpecFile option \<Rightarrow> AnalysisInput" where
  "request t app f =
     \<lparr> ana_number_in = 1, wt_app_id = app, drf_folder = ''Detective-EX'', input_warnings = [],
       analysis_type = t, input = f, callback = Some 7 \<rparr>"

section \<open>Propagation of a calibration change\<close>

text \<open>
  The functions of the SpecUtils library that \<^verbatim>\<open>propogate_energy_cal_change\<close> calls: the
  energy of a channel and the channel of an energy under given coefficients, the same two
  conversions as members of a calibration object, and the three setters that build a
  calibration object (each throws when it is given invalid values).
\<close>

record specutils =
  polynomial_energy :: "real \<Rightarrow> real list \<Rightarrow> (real \<times> real) list \<Rightarrow> real"
  fullrangefraction_energy :: "real \<Rightarrow> real list \<Rightarrow> nat \<Rightarrow> (real \<times> real) list \<Rightarrow> real"
  find_polynomial_channel :: "real \<Rightarrow> real list \<Rightarrow> nat \<Rightarrow> (real \<times> real) list \<Rightarrow> real \<Rightarrow> exn + real"
  find_fullrangefraction_channel :: "real \<Rightarrow> real list \<Rightarrow> nat \<Rightarrow> (real \<times> real) list \<Rightarrow> real \<Rightarrow> exn + real"
  channel_for_energy :: "EnergyCalibration \<Rightarrow> real \<Rightarrow> exn + real"
  energy_for_channel :: "EnergyCalibration \<Rightarrow> real \<Rightarrow> exn + real"
  set_polynomial :: "nat \<Rightarrow> real list \<Rightarrow> (real \<times> real) list \<Rightarrow> exn + EnergyCalibration"
  set_full_range_fraction :: "nat \<Rightarrow> real list \<Rightarrow> (real \<times> real) list \<Rightarrow> exn + EnergyCalibration"
  set_lower_channel_energy :: "nat \<Rightarrow> real list \<Rightarrow> exn + EnergyCalibration"

text \<open>A loop whose body may throw: the results in order, or the first exception.\<close>

fun map_exn :: "('a \<Rightarrow> exn + 'b) \<Rightarrow> 'a list \<Rightarrow> exn + 'b list" where
  "map_exn f [] = Inr []"
| "map_exn f (x # xs) =
     (case f x of
        Inl e \<Rightarrow> Inl e
      | Inr y \<Rightarrow> (case map_exn f xs of Inl e \<Rightarrow> Inl e | Inr ys \<Rightarrow> Inr (y # ys)))"

text \<open>\<^verbatim>\<open>make_shared\<close>: the new object gets an address that no pointer holds yet.\<close>

definition allocate :: "cal_heap \<Rightarrow> EnergyCalibration \<Rightarrow> cal_heap \<times> cal_ptr" where
  "allocate h c = (h @ [c], Some (length h))"

text \<open>The guard of lines 393--397.\<close>

definition propagation_input_ok :: "cal_heap \<Rightarrow> cal_ptr \<Rightarrow> cal_ptr \<Rightarrow> cal_ptr \<Rightarrow> bool" where
  "propagation_input_ok h orig_cal new_cal other_cal =
     (case (deref h orig_cal, deref h new_cal, deref h other_cal) of
        (Some oc, Some nc, Some tc) \<Rightarrow>
          cal_valid oc \<and> cal_valid nc \<and> cal_valid tc
          \<and> cal_type oc \<noteq> LowerChannelEdge \<and> cal_type nc \<noteq> LowerChannelEdge
      | _ \<Rightarrow> False)"

text \<open>The case of lines 424--444: the other calibration is given by lower channel energies.\<close>

definition propagate_lower_edge ::
  "specutils \<Rightarrow> numerics \<Rightarrow> cal_heap \<Rightarrow> EnergyCalibration \<Rightarrow> EnergyCalibration
     \<Rightarrow> EnergyCalibration \<Rightarrow> exn + (cal_heap \<times> cal_ptr)"
where
  "propagate_lower_edge su nm h oc nc tc =
     (let nchannel = num_channels tc
      in case channel_energies tc of
           None \<Rightarrow> Inl (fault ''null channel energies'')
         | Some old_lower \<Rightarrow>
             if nchannel \<ge> length old_lower
             then Inl (runtime_error ''EnergyCal::propogate_energy_cal_change: really unexpected programing error'')
             else
               case map_exn (\<lambda>i. case channel_for_energy su oc (old_lower ! i) of
                                    Inl e \<Rightarrow> Inl e
                                  | Inr equiv_channel \<Rightarrow>
                                      (case energy_for_channel su nc equiv_channel of
                                         Inl e \<Rightarrow> Inl e
                                       | Inr en \<Rightarrow> Inr (to_float nm en)))
                            [0..<nchannel + 1] of
                 Inl e \<Rightarrow> Inl e
               | Inr new_lower \<Rightarrow>
                   (case set_lower_channel_energy su nchannel new_lower of
                      Inl e \<Rightarrow> Inl e
                    | Inr answer \<Rightarrow> Inr (allocate h answer)))"

text \<open>
  One round of the loop of lines 462--537: the channel of the other detector and the new
  energy that belong to the \<open>i\<close>-th representative channel.
\<close>

definition channel_energy_pair ::
  "specutils \<Rightarrow> EnergyCalibration \<Rightarrow> EnergyCalibration \<Rightarrow> EnergyCalibration \<Rightarrow> nat \<Rightarrow> nat
     \<Rightarrow> exn + (real \<times> real)"
where
  "channel_energy_pair su oc nc tc order i =
     (if order - 1 = 0 then Inl (fault ''integer division by zero'')
      else
        let orig_num_channel = num_channels oc;
            new_num_channel = num_channels oc;
            display_channel = real (((order - i - 1) * orig_num_channel) div (order - 1))
        in case (case cal_type oc of
                   FullRangeFraction \<Rightarrow>
                     Inr (fullrangefraction_energy su display_channel (coefficients oc) orig_num_channel [],
                          fullrangefraction_energy su display_channel (coefficients nc) new_num_channel [])
                 | Polynomial \<Rightarrow>
                     Inr (polynomial_energy su display_channel (coefficients oc) [],
                          polynomial_energy su display_channel (coefficients nc) [])
                 | UnspecifiedUsingDefaultPolynomial \<Rightarrow>
                     Inr (polynomial_energy su display_channel (coefficients oc) [],
                          polynomial_energy su display_channel (coefficients nc) [])
                 | _ \<Rightarrow> Inl (fault ''assert(0)'')) of
             Inl e \<Rightarrow> Inl e
           | Inr (old_disp_energy, new_disp_energy) \<Rightarrow>
               (case (case cal_type tc of
                        Polynomial \<Rightarrow>
                          find_polynomial_channel su old_disp_energy (coefficients tc) (num_channels tc) [] 0.00001
                      | UnspecifiedUsingDefaultPolynomial \<Rightarrow>
                          find_polynomial_channel su old_disp_energy (coefficients tc) (num_channels tc) [] 0.00001
                      | FullRangeFraction \<Rightarrow>
                          find_fullrangefraction_channel su old_disp_energy (coefficients tc) (num_channels tc) [] 0.00001
                      | _ \<Rightarrow> Inl (fault ''assert(0)'')) of
                  Inl e \<Rightarrow> Inl e
                | Inr other_channel \<Rightarrow> Inr (other_channel, new_disp_energy)))"

text \<open>The general case, lines 457--566.\<close>

definition propagate_by_fit ::
  "specutils \<Rightarrow> numerics \<Rightarrow> cal_heap \<Rightarrow> EnergyCalibration \<Rightarrow> EnergyCalibration
     \<Rightarrow> EnergyCalibration \<Rightarrow> exn + (cal_heap \<times> cal_ptr)"
where
  "propagate_by_fit su nm h oc nc tc =
     (let order = max (length (coefficients tc))
                      (max (length (coefficients oc)) (length (coefficients nc)))
      in case map_exn (channel_energy_pair su oc nc tc order) [0..<order] of
           Inl e \<Rightarrow> Inl e
         | Inr channels_energies \<Rightarrow>
             (case (case cal_type tc of
                      Polynomial \<Rightarrow>
                        (case fit_for_poly_coefs nm channels_energies order of
                           Inl e \<Rightarrow> Inl e
                         | Inr cs \<Rightarrow> set_polynomial su (num_channels tc) cs (deviation_pairs tc))
                    | UnspecifiedUsingDefaultPolynomial \<Rightarrow>
                        (case fit_for_poly_coefs nm channels_energies order of
                           Inl e \<Rightarrow> Inl e
                         | Inr cs \<Rightarrow> set_polynomial su (num_channels tc) cs (deviation_pairs tc))
                    | FullRangeFraction \<Rightarrow>
                        (case fit_for_fullrangefraction_coefs nm channels_energies (num_channels tc) order of
                           Inl e \<Rightarrow> Inl e
                         | Inr cs \<Rightarrow> set_full_range_fraction su (num_channels tc) cs (deviation_pairs tc))
                    | _ \<Rightarrow> Inl (fault ''assert(0)'')) of
                Inl e \<Rightarrow> Inl e
              | Inr answer \<Rightarrow> Inr (allocate h answer)))"

text \<open>
  \<^verbatim>\<open>EnergyCal::propogate_energy_cal_change\<close> (lines 386--567). On success: the table of
  calibration objects, with the new object when one was made, and the pointer returned.
\<close>

definition propogate_energy_cal_change ::
  "specutils \<Rightarrow> numerics \<Rightarrow> cal_heap \<Rightarrow> cal_ptr \<Rightarrow> cal_ptr \<Rightarrow> cal_ptr \<Rightarrow> exn + (cal_heap \<times> cal_ptr)"
where
  "propogate_energy_cal_change su nm h orig_cal new_cal other_cal =
     (case (deref h orig_cal, deref h new_cal, deref h other_cal) of
        (Some oc, Some nc, Some tc) \<Rightarrow>
          if \<not> cal_valid oc \<or> \<not> cal_valid nc \<or> \<not> cal_valid tc
             \<or> cal_type oc = LowerChannelEdge \<or> cal_type nc = LowerChannelEdge
          then Inl (runtime_error ''EnergyCal::propogate_energy_cal_change invalid input'')
          else if orig_cal = new_cal then Inr (h, other_cal)
          else if cal_type tc = LowerChannelEdge then propagate_lower_edge su nm h oc nc tc
          else propagate_by_fit su nm h oc nc tc
      | _ \<Rightarrow> Inl (runtime_error ''EnergyCal::propogate_energy_cal_change invalid input''))"

text \<open>
  Fixtures: the library functions for calibrations without deviation pairs, the channel
  search done for a straight line; three calibration objects, the first two with the same
  values.
\<close>

definition specutils_linear :: specutils where
  "specutils_linear =
     \<lparr> polynomial_energy = (\<lambda>ch cs devs. sum_list (map (\<lambda>k. cs ! k * ch ^ k) [0..<length cs])),
       fullrangefraction_energy = (\<lambda>ch cs n devs. sum_list (map (\<lambda>k. cs ! k * (ch / real n) ^ k) [0..<length cs])),
       find_polynomial_channel = (\<lambda>e cs n devs acc. Inr ((e - cs ! 0) / cs ! 1)),
       find_fullrangefraction_channel = (\<lambda>e cs n devs acc. Inr ((e - cs ! 0) / cs ! 1 * real n)),
       channel_for_energy = (\<lambda>c e. Inr ((e - coefficients c ! 0) / coefficients c ! 1)),
       energy_for_channel = (\<lambda>c ch. Inr (coefficients c ! 0 + coefficients c ! 1 * ch)),
       set_polynomial = (\<lambda>n cs devs.
          Inr \<lparr> cal_type = Polynomial, cal_valid = True, coefficients = cs, deviation_pairs = devs,
                num_channels = n, channel_energies = Some [],
                lower_energy = cs ! 0, upper_energy = cs ! 0 + cs ! 1 * real n \<rparr>),
       set_full_range_fraction = (\<lambda>n cs devs.
          Inr \<lparr> cal_type = FullRangeFraction, cal_valid = True, coefficients = cs, deviation_pairs = devs,
                num_channels = n, channel_energies = Some [],
                lower_energy = cs ! 0, upper_energy = cs ! 0 + cs ! 1 \<rparr>),
       set_lower_channel_energy = (\<lambda>n es.
          Inr \<lparr> cal_type = LowerChannelEdge, cal_valid = True, coefficients = [], deviation_pairs = [],
                num_channels = n, channel_energies = Some es,
                lower_energy = es ! 0, upper_energy = es ! n \<rparr>) \<rparr>"

definition heap_three :: cal_heap where
  "heap_three = [cal_3MeV, cal_3MeV, cal_3MeV\<lparr>coefficients := [10, 2]\<rparr>]"

text \<open>
  The inputs that the checks of \<^verbatim>\<open>do_simple_analysis\<close> reject, read off the code: a measurement
  is refused for its channel count or its source type.
\<close>

definition bad_measurement :: "nat \<Rightarrow> Measurement \<Rightarrow> bool" where
  "bad_measurement nchannel m =
     (num_gamma_channels m \<noteq> nchannel
      \<or> source_type m = Calibration \<or> source_type m = IntrinsicActivity)"

definition code_simple_rejects :: "SpecFile option \<Rightarrow> bool" where
  "code_simple_rejects input_file =
     (case input_file of
        None \<Rightarrow> True
      | Some f \<Rightarrow>
          (length (measurements f) \<noteq> 1 \<and> length (measurements f) \<noteq> 2)
          \<or> (\<exists>m \<in> set (measurements f). bad_measurement (file_num_gamma_channels f) m)
          \<or> length (filter is_foreground (measurements f)) \<noteq> 1
          \<or> length (filter is_background (measurements f)) > 1
          \<or> file_num_gamma_channels f < 32
          \<or> file_num_gamma_channels f > 65536)"


section \<open>Engine-configuration cache\<close>

lemma init_raw_hit_after_success:
  assumes "init_gadras_drf_raw eng drf n k t g = (rv, g')" and "rv = 0"
  shows "init_gadras_drf_raw eng2 drf n k t g' = (0, g')"
  using assms
  by (auto simp: init_gadras_drf_raw_def call_engine_def Let_def split: if_splits)

lemma init_calibrated_hit_after_success:
  assumes "init_gadras_drf_calibrated eng drf n g = (rv, g')" and "rv = 0"
  shows "init_gadras_drf_calibrated eng2 drf n g' = (0, g')"
  using assms
  by (auto simp: init_gadras_drf_calibrated_def call_engine_def Let_def split: if_splits)

lemma init_raw_failure_resets:
  assumes "init_gadras_drf_raw eng drf n k t g = (rv, g')" and "rv \<noteq> 0"
  shows "g_gad_drf g' = '''' \<and> g_gad_nchannel g' = -1 \<and> g_gad_calibrated g' = False
         \<and> g_num_detectors g' = -1 \<and> g_gad_cal_adjust g' = NoAdjust
         \<and> engine_calls g' = engine_calls g @ [InitializeIsotopeIdRaw (g_gad_app_folder g) drf n k (calTag t)]"
  using assms
  by (auto simp: init_gadras_drf_raw_def call_engine_def Let_def split: if_splits)

lemma init_calibrated_failure_resets:
  assumes "init_gadras_drf_calibrated eng drf n g = (rv, g')" and "rv \<noteq> 0"
  shows "g_gad_drf g' = '''' \<and> g_gad_nchannel g' = -1 \<and> g_gad_calibrated g' = False
         \<and> g_num_detectors g' = g_num_detectors g \<and> g_gad_cal_adjust g' = g_gad_cal_adjust g
         \<and> engine_calls g' = engine_calls g @ [InitializeIsotopeIdCalibrated (g_gad_app_folder g) drf n]"
  using assms
  by (auto simp: init_gadras_drf_calibrated_def call_engine_def Let_def split: if_splits)

lemma init_raw_miss_calls_engine:
  assumes "drf \<noteq> g_gad_drf g"
  shows "engine_calls (snd (init_gadras_drf_raw eng drf n k t g))
           = engine_calls g @ [InitializeIsotopeIdRaw (g_gad_app_folder g) drf n k (calTag t)]"
  using assms
  by (auto simp: init_gadras_drf_raw_def call_engine_def Let_def split: if_splits)

lemma init_calibrated_miss_calls_engine:
  assumes "drf \<noteq> g_gad_drf g"
  shows "engine_calls (snd (init_gadras_drf_calibrated eng drf n g))
           = engine_calls g @ [InitializeIsotopeIdCalibrated (g_gad_app_folder g) drf n]"
  using assms
  by (auto simp: init_gadras_drf_calibrated_def call_engine_def Let_def split: if_splits)

lemma count_init_calls_append:
  "count_init_calls (xs @ ys) = count_init_calls xs + count_init_calls ys"
  by (simp add: count_init_calls_def)

text \<open>
  Claim C2, as the code has it. For a request (raw or calibrated) whose engine
  initialization returned 0: an immediately following request with the identical tuple
  returns 0 and leaves the globals, hence the trace of engine calls, untouched; when the
  first request did not already match the cache, the two requests together issue exactly
  one engine-initialization call. For a request whose engine initialization returned a
  non-zero code: the raw path resets all five cached values
  (\<open>''''\<close>, \<open>-1\<close>, \<open>False\<close>, \<open>-1\<close>, \<open>NoAdjust\<close>); the calibrated path resets the DRF name,
  the channel count and the mode, and leaves the detector count and the gain adjustment as
  they were; after either, the next request with a non-empty DRF name calls the engine's
  initialization again.
\<close>

theorem C2_engine_cache:
  "(init_gadras_drf_raw eng drf n k t g = (0, g') \<longrightarrow>
      init_gadras_drf_raw eng2 drf n k t g' = (0, g')
      \<and> (engine_calls g' \<noteq> engine_calls g \<longrightarrow>
           count_init_calls (engine_calls (snd (init_gadras_drf_raw eng2 drf n k t g')))
             = count_init_calls (engine_calls g) + 1))
   \<and> (init_gadras_drf_calibrated eng drf n g = (0, g') \<longrightarrow>
      init_gadras_drf_calibrated eng2 drf n g' = (0, g')
      \<and> (engine_calls g' \<noteq> engine_calls g \<longrightarrow>
           count_init_calls (engine_calls (snd (init_gadras_drf_calibrated eng2 drf n g')))
             = count_init_calls (engine_calls g) + 1))
   \<and> (init_gadras_drf_raw eng drf n k t g = (rv, g') \<and> rv \<noteq> 0 \<longrightarrow>
      g_gad_drf g' = '''' \<and> g_gad_nchannel g' = -1 \<and> g_gad_calibrated g' = False
      \<and> g_num_detectors g' = -1 \<and> g_gad_cal_adjust g' = NoAdjust
      \<and> (drf2 \<noteq> '''' \<longrightarrow>
           count_init_calls (engine_calls (snd (init_gadras_drf_raw eng2 drf2 n2 k2 t2 g')))
             = count_init_calls (engine_calls g') + 1
         \<and> count_init_calls (engine_calls (snd (init_gadras_drf_calibrated eng2 drf2 n2 g')))
             = count_init_calls (engine_calls g') + 1))
   \<and> (init_gadras_drf_calibrated eng drf n g = (rv, g') \<and> rv \<noteq> 0 \<longrightarrow>
      g_gad_drf g' = '''' \<and> g_gad_nchannel g' = -1 \<and> g_gad_calibrated g' = False
      \<and> g_num_detectors g' = g_num_detectors g \<and> g_gad_cal_adjust g' = g_gad_cal_adjust g
      \<and> (drf2 \<noteq> '''' \<longrightarrow>
           count_init_calls (engine_calls (snd (init_gadras_drf_raw eng2 drf2 n2 k2 t2 g')))
             = count_init_calls (engine_calls g') + 1
         \<and> count_init_calls (engine_calls (snd (init_gadras_drf_calibrated eng2 drf2 n2 g')))
             = count_init_calls (engine_calls g') + 1))"
proof (intro conjI impI)
  assume a: "init_gadras_drf_raw eng drf n k t g = (0, g')"
  show h: "init_gadras_drf_raw eng2 drf n k t g' = (0, g')"
    using init_raw_hit_after_success [OF a] by simp
  assume "engine_calls g' \<noteq> engine_calls g"
  with a have "engine_calls g' = engine_calls g @ [InitializeIsotopeIdRaw (g_gad_app_folder g) drf n k (calTag t)]"
    by (auto simp: init_gadras_drf_raw_def call_engine_def Let_def split: if_splits)
  then show "count_init_calls (engine_calls (snd (init_gadras_drf_raw eng2 drf n k t g')))
             = count_init_calls (engine_calls g) + 1"
    by (simp add: h count_init_calls_append) (simp add: count_init_calls_def)
next
  assume a: "init_gadras_drf_calibrated eng drf n g = (0, g')"
  show h: "init_gadras_drf_calibrated eng2 drf n g' = (0, g')"
    using init_calibrated_hit_after_success [OF a] by simp
  assume "engine_calls g' \<noteq> engine_calls g"
  with a have "engine_calls g' = engine_calls g @ [InitializeIsotopeIdCalibrated (g_gad_app_folder g) drf n]"
    by (auto simp: init_gadras_drf_calibrated_def call_engine_def Let_def split: if_splits)
  then show "count_init_calls (engine_calls (snd (init_gadras_drf_calibrated eng2 drf n g')))
             = count_init_calls (engine_calls g) + 1"
    by (simp add: h count_init_calls_append) (simp add: count_init_calls_def)
next
  assume a: "init_gadras_drf_raw eng drf n k t g = (rv, g') \<and> rv \<noteq> 0"
  then have r: "g_gad_drf g' = '''' \<and> g_gad_nchannel g' = -1 \<and> g_gad_calibrated g' = False
         \<and> g_num_detectors g' = -1 \<and> g_gad_cal_adjust g' = NoAdjust"
    using init_raw_failure_resets [of eng drf n k t g rv g'] by simp
  show "g_gad_drf g' = ''''" "g_gad_nchannel g' = -1" "g_gad_calibrated g' = False"
       "g_num_detectors g' = -1" "g_gad_cal_adjust g' = NoAdjust"
    using r by simp_all
  assume "drf2 \<noteq> ''''"
  then have d: "drf2 \<noteq> g_gad_drf g'" using r by simp
  show "count_init_calls (engine_calls (snd (init_gadras_drf_raw eng2 drf2 n2 k2 t2 g')))
             = count_init_calls (engine_calls g') + 1"
    by (simp add: init_raw_miss_calls_engine [OF d] count_init_calls_append)
       (simp add: count_init_calls_def)
  show "count_init_calls (engine_calls (snd (init_gadras_drf_calibrated eng2 drf2 n2 g')))
             = count_init_calls (engine_calls g') + 1"
    by (simp add: init_calibrated_miss_calls_engine [OF d] count_init_calls_append)
       (simp add: count_init_calls_def)
next
  assume a: "init_gadras_drf_calibrated eng drf n g = (rv, g') \<and> rv \<noteq> 0"
  then have r: "g_gad_drf g' = '''' \<and> g_gad_nchannel g' = -1 \<and> g_gad_calibrated g' = False
         \<and> g_num_detectors g' = g_num_detectors g \<and> g_gad_cal_adjust g' = g_gad_cal_adjust g"
    using init_calibrated_failure_resets [of eng drf n g rv g'] by simp
  show "g_gad_drf g' = ''''" "g_gad_nchannel g' = -1" "g_gad_calibrated g' = False"
       "g_num_detectors g' = g_num_detectors g" "g_gad_cal_adjust g' = g_gad_cal_adjust g"
    using r by simp_all
  assume "drf2 \<noteq> ''''"
  then have d: "drf2 \<noteq> g_gad_drf g'" using r by simp
  show "count_init_calls (engine_calls (snd (init_gadras_drf_raw eng2 drf2 n2 k2 t2 g')))
             = count_init_calls (engine_calls g') + 1"
    by (simp add: init_raw_miss_calls_engine [OF d] count_init_calls_append)
       (simp add: count_init_calls_def)
  show "count_init_calls (engine_calls (snd (init_gadras_drf_calibrated eng2 drf2 n2 g')))
             = count_init_calls (engine_calls g') + 1"
    by (simp add: init_calibrated_miss_calls_engine [OF d] count_init_calls_append)
       (simp add: count_init_calls_def)
qed


theorem C2_engine_cache_witness:
  "(init_gadras_drf_raw engine_ok ''drfs/Detective-EX'' 1024 4 K40 initial_globals = (0, globals_raw_ok)
      \<and> engine_calls globals_raw_ok \<noteq> engine_calls initial_globals
      \<and> init_gadras_drf_raw engine_init_fails ''drfs/Detective-EX'' 1024 4 K40 globals_raw_ok = (0, globals_raw_ok)
      \<and> count_init_calls (engine_calls (snd (init_gadras_drf_raw engine_init_fails ''drfs/Detective-EX'' 1024 4 K40 globals_raw_ok))) = 1)
   \<and> (init_gadras_drf_calibrated engine_ok ''drfs/Detective-EX'' 1024 initial_globals = (0, globals_calibrated_ok)
      \<and> engine_calls globals_calibrated_ok \<noteq> engine_calls initial_globals
      \<and> init_gadras_drf_calibrated engine_init_fails ''drfs/Detective-EX'' 1024 globals_calibrated_ok = (0, globals_calibrated_ok)
      \<and> count_init_calls (engine_calls (snd (init_gadras_drf_calibrated engine_init_fails ''drfs/Detective-EX'' 1024 globals_calibrated_ok))) = 1)
   \<and> (init_gadras_drf_raw engine_init_fails ''drfs/Detective-EX'' 1024 4 K40 initial_globals = (-3, globals_raw_failed)
      \<and> (-3 :: 32 word) \<noteq> 0 \<and> ''drfs/Detective-EX'' \<noteq> ''''
      \<and> g_gad_drf globals_raw_failed = '''' \<and> g_num_detectors globals_raw_failed = -1
      \<and> count_init_calls (engine_calls (snd (init_gadras_drf_raw engine_ok ''drfs/Detective-EX'' 1024 4 K40 globals_raw_failed))) = 2)
   \<and> (init_gadras_drf_calibrated engine_init_fails ''drfs/Detective-EX'' 1024 globals_raw_ok = (-3, globals_calibrated_failed)
      \<and> g_gad_drf globals_calibrated_failed = '''' \<and> g_num_detectors globals_calibrated_failed = 4
      \<and> g_gad_cal_adjust globals_calibrated_failed = K40
      \<and> count_init_calls (engine_calls (snd (init_gadras_drf_calibrated engine_ok ''drfs/Detective-EX'' 1024 globals_calibrated_failed))) = 3)"
proof -
  have a: "init_gadras_drf_raw engine_ok ''drfs/Detective-EX'' 1024 4 K40 initial_globals = (0, globals_raw_ok)"
    by (simp add: globals_raw_ok_def init_gadras_drf_raw_def call_engine_def initial_globals_def engine_ok_def)
  have b: "init_gadras_drf_calibrated engine_ok ''drfs/Detective-EX'' 1024 initial_globals = (0, globals_calibrated_ok)"
    by (simp add: globals_calibrated_ok_def init_gadras_drf_calibrated_def call_engine_def initial_globals_def engine_ok_def)
  have c: "init_gadras_drf_raw engine_init_fails ''drfs/Detective-EX'' 1024 4 K40 initial_globals = (-3, globals_raw_failed)
            \<and> (-3 :: 32 word) \<noteq> 0"
    by (simp add: globals_raw_failed_def init_gadras_drf_raw_def call_engine_def initial_globals_def engine_init_fails_def)
  have d: "init_gadras_drf_calibrated engine_init_fails ''drfs/Detective-EX'' 1024 globals_raw_ok = (-3, globals_calibrated_failed)
            \<and> (-3 :: 32 word) \<noteq> 0"
    by (simp add: globals_calibrated_failed_def globals_raw_ok_def init_gadras_drf_raw_def
        init_gadras_drf_calibrated_def call_engine_def initial_globals_def engine_init_fails_def engine_ok_def)
  have e: "engine_calls globals_raw_ok \<noteq> engine_calls initial_globals"
    by (simp add: globals_raw_ok_def init_gadras_drf_raw_def call_engine_def initial_globals_def engine_ok_def)
  have f: "engine_calls globals_calibrated_ok \<noteq> engine_calls initial_globals"
    by (simp add: globals_calibrated_ok_def init_gadras_drf_calibrated_def call_engine_def initial_globals_def engine_ok_def)
  have n0: "count_init_calls (engine_calls initial_globals) = 0"
    by (simp add: initial_globals_def count_init_calls_def)
  have n1: "count_init_calls (engine_calls globals_raw_failed) = 1"
    by (simp add: globals_raw_failed_def init_gadras_drf_raw_def call_engine_def initial_globals_def
        engine_init_fails_def count_init_calls_def)
  have n2: "count_init_calls (engine_calls globals_calibrated_failed) = 2"
    by (simp add: globals_calibrated_failed_def globals_raw_ok_def init_gadras_drf_raw_def
        init_gadras_drf_calibrated_def call_engine_def initial_globals_def engine_init_fails_def
        engine_ok_def count_init_calls_def)
  have k: "g_num_detectors globals_raw_ok = 4 \<and> g_gad_cal_adjust globals_raw_ok = K40"
    by (simp add: globals_raw_ok_def init_gadras_drf_raw_def call_engine_def initial_globals_def engine_ok_def)
  note t1 = C2_engine_cache [of engine_ok "''drfs/Detective-EX''" 1024 4 K40 initial_globals
                globals_raw_ok engine_init_fails "-3" "''drfs/Detective-EX''" 1024 4 K40]
  note t2 = C2_engine_cache [of engine_ok "''drfs/Detective-EX''" 1024 4 K40 initial_globals
                globals_calibrated_ok engine_init_fails "-3" "''drfs/Detective-EX''" 1024 4 K40]
  note t3 = C2_engine_cache [of engine_init_fails "''drfs/Detective-EX''" 1024 4 K40 initial_globals
                globals_raw_failed engine_ok "-3" "''drfs/Detective-EX''" 1024 4 K40]
  note t4 = C2_engine_cache [of engine_init_fails "''drfs/Detective-EX''" 1024 4 K40 globals_raw_ok
                globals_calibrated_failed engine_ok "-3" "''drfs/Detective-EX''" 1024 4 K40]
  have p1: "init_gadras_drf_raw engine_init_fails ''drfs/Detective-EX'' 1024 4 K40 globals_raw_ok = (0, globals_raw_ok)
      \<and> count_init_calls (engine_calls (snd (init_gadras_drf_raw engine_init_fails ''drfs/Detective-EX'' 1024 4 K40 globals_raw_ok))) = 1"
    using t1 a e n0 by (metis add_0)
  have p2: "init_gadras_drf_calibrated engine_init_fails ''drfs/Detective-EX'' 1024 globals_calibrated_ok = (0, globals_calibrated_ok)
      \<and> count_init_calls (engine_calls (snd (init_gadras_drf_calibrated engine_init_fails ''drfs/Detective-EX'' 1024 globals_calibrated_ok))) = 1"
    using t2 b f n0 by (metis add_0)
  have p3: "g_gad_drf globals_raw_failed = '''' \<and> g_num_detectors globals_raw_failed = -1
      \<and> count_init_calls (engine_calls (snd (init_gadras_drf_raw engine_ok ''drfs/Detective-EX'' 1024 4 K40 globals_raw_failed))) = 2"
    using t3 c n1 by simp
  have p4: "g_gad_drf globals_calibrated_failed = '''' \<and> g_num_detectors globals_calibrated_failed = 4
      \<and> g_gad_cal_adjust globals_calibrated_failed = K40
      \<and> count_init_calls (engine_calls (snd (init_gadras_drf_calibrated engine_ok ''drfs/Detective-EX'' 1024 globals_calibrated_failed))) = 3"
    using t4 d n2 k by simp
  have s: "''drfs/Detective-EX'' \<noteq> ''''" by simp
  show ?thesis
    using p1 p2 p3 p4 a b c d e f s by blast
qed

text \<open>
  Claim C2 as stated fails: after a successful raw initialization for four detectors, a
  calibrated initialization that the engine rejects leaves the cached detector count at 4
  (not \<open>-1\<close>), and a following raw request for the tuple now in the cache returns 0
  without calling the engine.
\<close>

theorem C2_counterexample:
  "fst (init_gadras_drf_calibrated engine_init_fails ''drfs/Detective-EX'' 1024 globals_raw_ok) \<noteq> 0
   \<and> g_num_detectors globals_calibrated_failed = 4
   \<and> g_num_detectors globals_calibrated_failed \<noteq> -1
   \<and> init_gadras_drf_raw engine_ok '''' (-1) 4 K40 globals_calibrated_failed = (0, globals_calibrated_failed)"
  by (simp add: globals_calibrated_failed_def globals_raw_ok_def init_gadras_drf_raw_def
        init_gadras_drf_calibrated_def call_engine_def initial_globals_def engine_init_fails_def
        engine_ok_def)


section \<open>JSON serialization\<close>

lemma toJson_code:
  "map_of (toJson r) ''code'' =
     Some (JInt (if sint (gadras_intialization_error r) < 0 \<or> sint (gadras_analysis_error r) < 0
                 then 6 else 0))"
  by (simp add: toJson_def Let_def update_conv')

lemma toJson_failure_keys:
  assumes "sint (gadras_intialization_error r) < 0 \<or> sint (gadras_analysis_error r) < 0"
  shows "fst ` set (toJson r) \<subseteq> {''analysisError'', ''errorMessage'', ''code'', ''initializationError''}"
  using assms by (auto simp: toJson_def Let_def dom_update simp flip: dom_map_of_conv_image_fst)

lemma toJson_success_fields:
  assumes "\<not> (sint (gadras_intialization_error r) < 0 \<or> sint (gadras_analysis_error r) < 0)"
  shows "map_of (toJson r) ''drf'' = Some (JStr (drf_used r))"
    and "map_of (toJson r) ''stuffOfInterest'' = Some (JNum (stuff_of_interest r))"
    and "map_of (toJson r) ''isotopeString'' = Some (JStr (isotopes r))"
    and "map_of (toJson r) ''chi2'' = Some (JNum (chi_sqr r))"
    and "map_of (toJson r) ''alarmBasisDuration'' = Some (JNum (alarm_basis_duration r))"
    and "map_of (toJson r) ''analysisWarnings'' =
           (if analysis_warnings r = [] then None else Some (JArr (map JStr (analysis_warnings r))))"
    and "map_of (toJson r) ''isotopes'' =
           Some (JArr (map (\<lambda>i. JObj (isotope_record r i)) [0..<num_isotopes r]))"
  using assms by (simp_all add: toJson_def Let_def update_conv')

lemma isotope_record_fields:
  "map_of (isotope_record r i) ''name'' = Some (JStr (isotope_names r ! i))"
  "map_of (isotope_record r i) ''type'' = Some (JStr (isotope_types r ! i))"
  "map_of (isotope_record r i) ''countRate'' = Some (JNum (isotope_count_rates r ! i))"
  "map_of (isotope_record r i) ''confidence'' = Some (JNum (isotope_confidences r ! i))"
  "map_of (isotope_record r i) ''confidenceStr'' = Some (JStr (isotope_confidence_strs r ! i))"
  by (simp_all add: isotope_record_def update_conv')

text \<open>
  Claim C9. The \<open>code\<close> entry of the serialized result is 6 exactly when the initialization
  error code or the analysis error code is negative, and 0 otherwise. In the first case the
  object has no entries besides \<open>analysisError\<close>, \<open>errorMessage\<close>, \<open>code\<close> and
  \<open>initializationError\<close>. In the second case it holds the detector-response name, the
  quantity of interest, the isotope summary string, chi-square, the alarm-basis duration,
  the warnings (when there are any) and an array with one record for each index below the
  common length of the five per-isotope arrays, each record giving name, category, count
  rate, numeric confidence and confidence label of that index.
\<close>

theorem C9_toJson:
  "(map_of (toJson r) ''code'' = Some (JInt 6)
      \<longleftrightarrow> sint (gadras_intialization_error r) < 0 \<or> sint (gadras_analysis_error r) < 0)
   \<and> (map_of (toJson r) ''code'' = Some (JInt 0)
      \<longleftrightarrow> \<not> (sint (gadras_intialization_error r) < 0 \<or> sint (gadras_analysis_error r) < 0))
   \<and> (sint (gadras_intialization_error r) < 0 \<or> sint (gadras_analysis_error r) < 0 \<longrightarrow>
        fst ` set (toJson r) \<subseteq> {''analysisError'', ''errorMessage'', ''code'', ''initializationError''})
   \<and> (\<not> (sint (gadras_intialization_error r) < 0 \<or> sint (gadras_analysis_error r) < 0) \<longrightarrow>
        map_of (toJson r) ''drf'' = Some (JStr (drf_used r))
      \<and> map_of (toJson r) ''stuffOfInterest'' = Some (JNum (stuff_of_interest r))
      \<and> map_of (toJson r) ''isotopeString'' = Some (JStr (isotopes r))
      \<and> map_of (toJson r) ''chi2'' = Some (JNum (chi_sqr r))
      \<and> map_of (toJson r) ''alarmBasisDuration'' = Some (JNum (alarm_basis_duration r))
      \<and> (analysis_warnings r \<noteq> [] \<longrightarrow>
            map_of (toJson r) ''analysisWarnings'' = Some (JArr (map JStr (analysis_warnings r))))
      \<and> map_of (toJson r) ''isotopes'' =
            Some (JArr (map (\<lambda>i. JObj (isotope_record r i)) [0..<num_isotopes r]))
      \<and> (length (isotope_types r) = length (isotope_names r)
           \<and> length (isotope_count_rates r) = length (isotope_names r)
           \<and> length (isotope_confidences r) = length (isotope_names r)
           \<and> length (isotope_confidence_strs r) = length (isotope_names r)
           \<longrightarrow> num_isotopes r = length (isotope_names r)))
   \<and> map_of (isotope_record r i) ''name'' = Some (JStr (isotope_names r ! i))
   \<and> map_of (isotope_record r i) ''type'' = Some (JStr (isotope_types r ! i))
   \<and> map_of (isotope_record r i) ''countRate'' = Some (JNum (isotope_count_rates r ! i))
   \<and> map_of (isotope_record r i) ''confidence'' = Some (JNum (isotope_confidences r ! i))
   \<and> map_of (isotope_record r i) ''confidenceStr'' = Some (JStr (isotope_confidence_strs r ! i))"
proof (intro conjI impI)
  show "map_of (toJson r) ''code'' = Some (JInt 6)
      \<longleftrightarrow> sint (gadras_intialization_error r) < 0 \<or> sint (gadras_analysis_error r) < 0"
    by (simp add: toJson_code)
  show "map_of (toJson r) ''code'' = Some (JInt 0)
      \<longleftrightarrow> \<not> (sint (gadras_intialization_error r) < 0 \<or> sint (gadras_analysis_error r) < 0)"
    by (simp add: toJson_code)
  show "fst ` set (toJson r) \<subseteq> {''analysisError'', ''errorMessage'', ''code'', ''initializationError''}"
    if "sint (gadras_intialization_error r) < 0 \<or> sint (gadras_analysis_error r) < 0"
    using that by (rule toJson_failure_keys)
qed (simp_all add: toJson_success_fields isotope_record_fields num_isotopes_def)

theorem C9_toJson_witness:
  "sint (gadras_intialization_error output_failed) < 0
   \<and> map_of (toJson output_failed) ''code'' = Some (JInt 6)
   \<and> map_of (toJson output_failed) ''drf'' = None
   \<and> map_of (toJson output_failed) ''isotopes'' = None
   \<and> \<not> (sint (gadras_intialization_error output_cs137) < 0 \<or> sint (gadras_analysis_error output_cs137) < 0)
   \<and> map_of (toJson output_cs137) ''code'' = Some (JInt 0)
   \<and> map_of (toJson output_cs137) ''drf'' = Some (JStr ''Detective-EX'')
   \<and> analysis_warnings output_cs137 \<noteq> []
   \<and> map_of (toJson output_cs137) ''analysisWarnings'' = Some (JArr [JStr ''Skipped checking energy calibration''])
   \<and> num_isotopes output_cs137 = 1
   \<and> map_of (toJson output_cs137) ''isotopes'' = Some (JArr [JObj (isotope_record output_cs137 0)])
   \<and> map_of (isotope_record output_cs137 0) ''name'' = Some (JStr ''Cs137'')
   \<and> map_of (isotope_record output_cs137 0) ''confidenceStr'' = Some (JStr ''H'')"
proof -
  have f: "sint (gadras_intialization_error output_failed) < 0"
    by (simp add: output_failed_def AnalysisOutput_ctor_def)
  have s: "\<not> (sint (gadras_intialization_error output_cs137) < 0 \<or> sint (gadras_analysis_error output_cs137) < 0)"
    by (simp add: output_cs137_def AnalysisOutput_ctor_def)
  have l: "length (isotope_types output_cs137) = length (isotope_names output_cs137)
           \<and> length (isotope_count_rates output_cs137) = length (isotope_names output_cs137)
           \<and> length (isotope_confidences output_cs137) = length (isotope_names output_cs137)
           \<and> length (isotope_confidence_strs output_cs137) = length (isotope_names output_cs137)
           \<and> length (isotope_names output_cs137) = 1"
    by (simp add: output_cs137_def AnalysisOutput_ctor_def)
  have w: "analysis_warnings output_cs137 = [''Skipped checking energy calibration'']"
       "drf_used output_cs137 = ''Detective-EX''"
       "isotope_names output_cs137 ! 0 = ''Cs137''"
       "isotope_confidence_strs output_cs137 ! 0 = ''H''"
    by (simp_all add: output_cs137_def AnalysisOutput_ctor_def)
  have k: "fst ` set (toJson output_failed) \<subseteq> {''analysisError'', ''errorMessage'', ''code'', ''initializationError''}"
    using C9_toJson [of output_failed 0] f by blast
  have "''drf'' \<notin> fst ` set (toJson output_failed)" "''isotopes'' \<notin> fst ` set (toJson output_failed)"
    using k by auto
  then have a: "map_of (toJson output_failed) ''drf'' = None" "map_of (toJson output_failed) ''isotopes'' = None"
    by (simp_all add: map_of_eq_None_iff)
  have n1: "num_isotopes output_cs137 = 1"
    using C9_toJson [of output_cs137 0] s l by simp
  show ?thesis
    using C9_toJson [of output_failed 0] C9_toJson [of output_cs137 0] f s l w a n1
    by simp
qed


section \<open>Foreground windows of the search analysis\<close>

lemma rts_C:
  "real_time_of_sample file_scenario_C 1 = 120"
  "real_time_of_sample file_scenario_C 2 = 0.1"
  "real_time_of_sample file_scenario_C 3 = 0.1"
  "real_time_of_sample file_scenario_C 4 = 0.1"
  "real_time_of_sample file_scenario_C 5 = 0.1"
  "real_time_of_sample file_scenario_C 6 = 0.1"
  by (simp_all add: real_time_of_sample_def sample_measurements_def file_scenario_C_def meas_def
        has_valid_cal_def deref_def cal_3MeV_def)

lemma samples_C: "sample_numbers file_scenario_C = [1, 2, 3, 4, 5, 6, 7, 8, 9, 10]"
  by (simp add: file_scenario_C_def)

lemma acc_C:
  "accumulate_samples file_scenario_C [1] (sample_numbers file_scenario_C) (0, []) = (1/2, [2, 3, 4, 5, 6])"
  by (simp add: samples_C rts_C set_insert_def)

lemma scan_C:
  "scan_samples False file_scenario_C (sample_numbers file_scenario_C)
       \<lparr> energy_cals = [], nchannels = 0, background_samples = [], neutron_detector_names = [] \<rparr>
     = \<lparr> energy_cals = [(''Aa1'', 0)], nchannels = 1024, background_samples = [1],
         neutron_detector_names = [] \<rparr>"
  by (simp add: file_scenario_C_def scan_detector_def measurement_def meas_def deref_def cal_3MeV_def
        set_insert_def smax_def Let_def)

lemma win_step:
  "analyze_windows engine_ok file_scenario_C [1] (x # xs) ws r g =
     analyze_windows engine_ok file_scenario_C [1] xs (ws @ [(1/2, [2, 3, 4, 5, 6])]) r
        (g\<lparr>engine_calls := engine_calls g @ [StreamingSearch ANALYZE [2, 3, 4, 5, 6]]\<rparr>)"
  by (simp add: acc_C call_engine_def engine_ok_def del: accumulate_samples.simps)

lemma replicate_10: "replicate 10 w = [w, w, w, w, w, w, w, w, w, w]"
  by (simp add: numeral_eq_Suc)

lemma windows_C:
  "analyze_windows engine_ok file_scenario_C [1] (sample_numbers file_scenario_C) [] r g
     = (None, replicate 10 (1/2, [2, 3, 4, 5, 6]), r,
        g\<lparr>engine_calls := engine_calls g @ replicate 10 (StreamingSearch ANALYZE [2, 3, 4, 5, 6])\<rparr>)"
  unfolding samples_C replicate_10 by (simp add: win_step del: analyze_windows.simps(2))

lemma search_trace_C:
  "engine_calls (snd (snd (search_try engine_ok stages_trivial (request Search '''' (Some file_scenario_C))
        (search_result (request Search '''' (Some file_scenario_C))) initial_globals)))
     = [InitializeIsotopeIdRaw ''gadras_isotope_id_run_directory'' ''drfs/Detective-EX'' 1024 1 ''k'',
        StreamingSearch INITIALIZE [1], StreamingSearch ANALYZE [1]]
       @ replicate 10 (StreamingSearch ANALYZE [2, 3, 4, 5, 6])
       @ [StreamingSearch RESET []]"
proof -
  have i: "input (request Search '''' (Some file_scenario_C)) = Some file_scenario_C"
       "drf_folder (request Search '''' (Some file_scenario_C)) = ''Detective-EX''"
       "analysis_type (request Search '''' (Some file_scenario_C)) = Search"
    by (simp_all add: request_def)
  have init: "init_gadras_drf_raw engine_ok (append_path ''drfs'' ''Detective-EX'') 1024 1 K40 initial_globals
      = (0, initial_globals\<lparr>engine_calls :=
              [InitializeIsotopeIdRaw ''gadras_isotope_id_run_directory'' ''drfs/Detective-EX'' 1024 1 ''k''],
            g_gad_drf := ''drfs/Detective-EX'', g_gad_nchannel := 1024, g_gad_calibrated := False,
            g_num_detectors := 1, g_gad_cal_adjust := K40\<rparr>)"
    by (simp add: init_gadras_drf_raw_def call_engine_def engine_ok_def initial_globals_def
          append_path_def calTag_def)
  have c: "check_init_results 0 = None" by (simp add: check_init_results_def)
  have sb: "select_background file_scenario_C n [1] = [1]" for n by (simp add: select_background_def)
  show ?thesis
    by (simp add: search_try_def i scan_C init c sb search_after_init_def call_engine_def
          engine_ok_def windows_C stages_trivial_def del: replicate.simps)
qed

text \<open>
  Claim C1 at the samples of Scenario C (sample 1 a background of 120 s, samples 2 to 10
  foreground slices of 0.1 s). The first pass makes sample 1 the background. The window
  loop then runs once for each of the ten sample numbers, and each round starts its walk
  again at the first sample number: it yields ten windows, every one of them the samples
  2 to 6 with 0.5 s, instead of three successive windows. Samples 2 to 6 are in all ten
  windows and samples 7 to 10 are in none; the engine is asked to analyse that one window
  ten times.
\<close>

theorem C1_scenario_C_windows:
  "background_samples (scan_samples False file_scenario_C (sample_numbers file_scenario_C)
       \<lparr> energy_cals = [], nchannels = 0, background_samples = [], neutron_detector_names = [] \<rparr>) = [1]
   \<and> fst (snd (analyze_windows engine_ok file_scenario_C [1] (sample_numbers file_scenario_C) [] r g))
        = replicate 10 (1/2, [2, 3, 4, 5, 6])
   \<and> engine_calls (snd (snd (search_try engine_ok stages_trivial (request Search '''' (Some file_scenario_C))
        (search_result (request Search '''' (Some file_scenario_C))) initial_globals)))
     = [InitializeIsotopeIdRaw ''gadras_isotope_id_run_directory'' ''drfs/Detective-EX'' 1024 1 ''k'',
        StreamingSearch INITIALIZE [1], StreamingSearch ANALYZE [1]]
       @ replicate 10 (StreamingSearch ANALYZE [2, 3, 4, 5, 6])
       @ [StreamingSearch RESET []]"
  by (simp only: scan_C windows_C search_trace_C search_scan.simps fst_conv snd_conv simp_thms)

section \<open>Validation of the input of simple analysis\<close>

lemma sort_measurements_good:
  assumes "\<forall>m \<in> set ms. \<not> bad_measurement n m"
  shows "sort_measurements n ms (bs, fs) = Inr (bs @ filter is_background ms, fs @ filter is_foreground ms)"
  using assms
proof (induction ms arbitrary: bs fs)
  case Nil
  then show ?case by simp
next
  case (Cons m ms)
  then show ?case
    by (cases "source_type m") (auto simp: bad_measurement_def is_background_def is_foreground_def)
qed

lemma sort_measurements_bad:
  assumes "\<exists>m \<in> set ms. bad_measurement n m"
  shows "\<exists>e. sort_measurements n ms (bs, fs) = Inl e \<and> what e \<noteq> ''''"
  using assms
proof (induction ms arbitrary: bs fs)
  case Nil
  then show ?case by simp
next
  case (Cons m ms)
  show ?case
  proof (cases "bad_measurement n m")
    case True
    then show ?thesis
      by (cases "source_type m") (auto simp: bad_measurement_def)
  next
    case False
    with Cons.prems have "\<exists>m \<in> set ms. bad_measurement n m" by simp
    from Cons.IH [OF this] False show ?thesis
      by (cases "source_type m") (auto simp: bad_measurement_def)
  qed
qed

lemma simple_checks_rejects:
  assumes "code_simple_rejects input_file"
  shows "\<exists>e. simple_checks input_file = Inl e \<and> what e \<noteq> ''''"
proof (cases input_file)
  case None
  then show ?thesis by (simp add: simple_checks_def)
next
  case (Some f)
  show ?thesis
  proof (cases "\<exists>m \<in> set (measurements f). bad_measurement (file_num_gamma_channels f) m")
    case True
    from sort_measurements_bad [OF True, of "[]" "[]"] obtain e where
      "sort_measurements (file_num_gamma_channels f) (measurements f) ([], []) = Inl e" "what e \<noteq> ''''"
      by blast
    then show ?thesis using Some by (simp add: simple_checks_def Let_def)
  next
    case False
    then have "\<forall>m \<in> set (measurements f). \<not> bad_measurement (file_num_gamma_channels f) m" by simp
    from sort_measurements_good [OF this, of "[]" "[]"] assms Some False show ?thesis
      by (auto simp: simple_checks_def Let_def code_simple_rejects_def)
  qed
qed

lemma simple_checks_accepts:
  assumes "\<not> code_simple_rejects input_file"
  shows "\<exists>f fg. input_file = Some f \<and> filter is_foreground (measurements f) = [fg]
           \<and> simple_checks input_file =
               Inr (file_num_gamma_channels f, filter is_background (measurements f), [fg])"
proof (cases input_file)
  case None
  with assms show ?thesis by (simp add: code_simple_rejects_def)
next
  case (Some f)
  with assms have g: "\<forall>m \<in> set (measurements f). \<not> bad_measurement (file_num_gamma_channels f) m"
    and l: "length (filter is_foreground (measurements f)) = 1"
    and r: "length (measurements f) = 1 \<or> length (measurements f) = 2"
       "\<not> length (filter is_background (measurements f)) > 1"
       "\<not> file_num_gamma_channels f < 32" "\<not> file_num_gamma_channels f > 65536"
    by (auto simp: code_simple_rejects_def)
  from l obtain fg where fg: "filter is_foreground (measurements f) = [fg]"
    by (cases "filter is_foreground (measurements f)") auto
  from sort_measurements_good [OF g, of "[]" "[]"] fg r Some show ?thesis
    by (auto simp: simple_checks_def Let_def)
qed

lemma rejects_agree:
  assumes "file_channels_consistent input_file"
  shows "spec_simple_rejects input_file \<longleftrightarrow> code_simple_rejects input_file"
proof (cases input_file)
  case None
  then show ?thesis by (simp add: spec_simple_rejects_def code_simple_rejects_def)
next
  case (Some f)
  show ?thesis
  proof (cases "measurements f = []")
    case True
    then show ?thesis using Some by (simp add: spec_simple_rejects_def code_simple_rejects_def)
  next
    case False
    with assms Some obtain m0 where m0: "m0 \<in> set (measurements f)"
      "file_num_gamma_channels f = num_gamma_channels m0"
      by (auto simp: file_channels_consistent_def)
    have "(\<exists>m1 \<in> set (measurements f). \<exists>m2 \<in> set (measurements f).
             num_gamma_channels m1 \<noteq> num_gamma_channels m2)
          \<longleftrightarrow> (\<exists>m \<in> set (measurements f). num_gamma_channels m \<noteq> file_num_gamma_channels f)"
      using m0 by metis
    moreover have "(\<exists>m \<in> set (measurements f). bad_measurement (file_num_gamma_channels f) m)
          \<longleftrightarrow> (\<exists>m \<in> set (measurements f). num_gamma_channels m \<noteq> file_num_gamma_channels f)
              \<or> (\<exists>m \<in> set (measurements f).
                    source_type m = Calibration \<or> source_type m = IntrinsicActivity)"
      unfolding bad_measurement_def by blast
    ultimately show ?thesis
      unfolding Some spec_simple_rejects_def code_simple_rejects_def option.case by blast
  qed
qed

lemma do_simple_analysis_eq:
  "do_simple_analysis eng st server inp g =
     (deliver server inp (fst (catch_exception (simple_try eng st inp (simple_result inp) g))),
      snd (catch_exception (simple_try eng st inp (simple_result inp) g)))"
  by (simp add: do_simple_analysis_def split: prod.split)

text \<open>
  Claim C10, as the code has it. For a file whose channel count is that of one of its
  measurements, simple analysis rejects the input exactly in the cases the specification
  lists. A rejected input makes no call to the engine (the globals, which hold the trace
  of engine calls, are unchanged) and gives a result with an error message, which is
  handed over as any result is: the callback is called directly when the session
  identifier is empty, posted to the session when the identifier is non-empty and a server
  instance exists, and not called when the identifier is non-empty and there is no server
  instance. An input that passes goes on to \<^verbatim>\<open>init_gadras_drf_calibrated\<close> with the file's
  channel count, and from there to the check of the initialization code, the analysis
  proper and the delivery of the result.
\<close>

theorem C10_simple_validation:
  assumes "file_channels_consistent (input inp)"
  shows "(spec_simple_rejects (input inp) \<longrightarrow>
            (\<exists>e. what e \<noteq> ''''
                \<and> do_simple_analysis eng st server inp g
                    = ((case callback inp of
                          None \<Rightarrow> []
                        | Some cb \<Rightarrow>
                            if wt_app_id inp = ''''
                            then [Invoked cb ((simple_result inp)\<lparr>error_message := what e\<rparr>)]
                            else if server
                            then [Posted (wt_app_id inp) cb ((simple_result inp)\<lparr>error_message := what e\<rparr>)]
                            else []), g)))
       \<and> (\<not> spec_simple_rejects (input inp) \<longrightarrow>
            (\<exists>f fg. input inp = Some f \<and> filter is_foreground (measurements f) = [fg]
               \<and> do_simple_analysis eng st server inp g =
                   (let (init_code, g1) = init_gadras_drf_calibrated eng
                            (append_path ''drfs'' (drf_folder inp)) (of_nat (file_num_gamma_channels f)) g;
                        result1 = (simple_result inp)\<lparr>gadras_intialization_error := init_code\<rparr>;
                        (result2, g2) = catch_exception
                           (case check_init_results init_code of
                              Some e \<Rightarrow> (Some e, result1, g1)
                            | None \<Rightarrow> static_stage st fg (filter is_background (measurements f)) result1 g1)
                    in (deliver server inp result2, g2))))"
proof (intro conjI impI)
  assume "spec_simple_rejects (input inp)"
  then have "code_simple_rejects (input inp)" using rejects_agree [OF assms] by simp
  from simple_checks_rejects [OF this] obtain e where
    e: "simple_checks (input inp) = Inl e" "what e \<noteq> ''''" by blast
  then have t: "simple_try eng st inp (simple_result inp) g = (Some e, simple_result inp, g)"
    by (simp add: simple_try_def)
  have "do_simple_analysis eng st server inp g
          = ((case callback inp of
                None \<Rightarrow> []
              | Some cb \<Rightarrow>
                  if wt_app_id inp = ''''
                  then [Invoked cb ((simple_result inp)\<lparr>error_message := what e\<rparr>)]
                  else if server
                  then [Posted (wt_app_id inp) cb ((simple_result inp)\<lparr>error_message := what e\<rparr>)]
                  else []), g)"
    unfolding do_simple_analysis_eq t
    by (auto simp: catch_exception_def deliver_def split: option.split)
  with e(2) show "\<exists>e. what e \<noteq> ''''
                \<and> do_simple_analysis eng st server inp g
                    = ((case callback inp of
                          None \<Rightarrow> []
                        | Some cb \<Rightarrow>
                            if wt_app_id inp = ''''
                            then [Invoked cb ((simple_result inp)\<lparr>error_message := what e\<rparr>)]
                            else if server
                            then [Posted (wt_app_id inp) cb ((simple_result inp)\<lparr>error_message := what e\<rparr>)]
                            else []), g)"
    by blast
next
  assume "\<not> spec_simple_rejects (input inp)"
  then have "\<not> code_simple_rejects (input inp)" using rejects_agree [OF assms] by simp
  from simple_checks_accepts [OF this] obtain f fg where
    f: "input inp = Some f" "filter is_foreground (measurements f) = [fg]"
       "simple_checks (input inp) =
               Inr (file_num_gamma_channels f, filter is_background (measurements f), [fg])"
    by blast
  from f(3) have "do_simple_analysis eng st server inp g =
                   (let (init_code, g1) = init_gadras_drf_calibrated eng
                            (append_path ''drfs'' (drf_folder inp)) (of_nat (file_num_gamma_channels f)) g;
                        result1 = (simple_result inp)\<lparr>gadras_intialization_error := init_code\<rparr>;
                        (result2, g2) = catch_exception
                           (case check_init_results init_code of
                              Some e \<Rightarrow> (Some e, result1, g1)
                            | None \<Rightarrow> static_stage st fg (filter is_background (measurements f)) result1 g1)
                    in (deliver server inp result2, g2))"
    by (simp only: do_simple_analysis_def simple_try_def sum.case prod.case list.sel Let_def)
       (simp split: prod.split)
  with f(1,2) show "\<exists>f fg. input inp = Some f \<and> filter is_foreground (measurements f) = [fg]
               \<and> do_simple_analysis eng st server inp g =
                   (let (init_code, g1) = init_gadras_drf_calibrated eng
                            (append_path ''drfs'' (drf_folder inp)) (of_nat (file_num_gamma_channels f)) g;
                        result1 = (simple_result inp)\<lparr>gadras_intialization_error := init_code\<rparr>;
                        (result2, g2) = catch_exception
                           (case check_init_results init_code of
                              Some e \<Rightarrow> (Some e, result1, g1)
                            | None \<Rightarrow> static_stage st fg (filter is_background (measurements f)) result1 g1)
                    in (deliver server inp result2, g2))"
    by blast
qed


theorem C10_simple_validation_witness:
  "file_channels_consistent (input (request Simple '''' None))
   \<and> spec_simple_rejects (input (request Simple '''' None))
   \<and> (\<exists>e. what e \<noteq> ''''
        \<and> do_simple_analysis engine_ok stages_trivial False (request Simple '''' None) initial_globals
            = ([Invoked 7 ((simple_result (request Simple '''' None))\<lparr>error_message := what e\<rparr>)],
               initial_globals))
   \<and> file_channels_consistent (input (request Simple '''' (Some file_fore_back)))
   \<and> \<not> spec_simple_rejects (input (request Simple '''' (Some file_fore_back)))
   \<and> do_simple_analysis engine_ok stages_trivial False (request Simple '''' (Some file_fore_back)) initial_globals
       = ([Invoked 7 ((simple_result (request Simple '''' (Some file_fore_back)))
                        \<lparr>gadras_intialization_error := 0, gadras_analysis_error := 0\<rparr>)],
          initial_globals\<lparr>engine_calls :=
              [InitializeIsotopeIdCalibrated ''gadras_isotope_id_run_directory'' ''drfs/Detective-EX'' 1024],
              g_gad_drf := ''drfs/Detective-EX'', g_gad_nchannel := 1024, g_gad_calibrated := True\<rparr>)"
proof -
  let ?bad = "request Simple '''' None"
  let ?ok = "request Simple '''' (Some file_fore_back)"
  have b1: "file_channels_consistent (input ?bad)"
    by (simp add: request_def file_channels_consistent_def)
  have b2: "spec_simple_rejects (input ?bad)"
    by (simp add: request_def spec_simple_rejects_def)
  have bc: "callback ?bad = Some 7" "wt_app_id ?bad = ''''"
    by (simp_all add: request_def)
  have o1: "file_channels_consistent (input ?ok)"
    by (simp add: request_def file_channels_consistent_def file_fore_back_def meas_def)
  have o2: "\<not> spec_simple_rejects (input ?ok)"
    by (simp add: request_def spec_simple_rejects_def file_fore_back_def meas_def
          is_foreground_def is_background_def)
  have i: "input ?ok = Some file_fore_back" "drf_folder ?ok = ''Detective-EX''"
    by (simp_all add: request_def)
  have d: "deliver False ?ok r = [Invoked 7 r]" for r
    by (simp add: deliver_def request_def)
  have fg: "file_num_gamma_channels file_fore_back = 1024"
    by (simp add: file_fore_back_def)
  have init: "init_gadras_drf_calibrated engine_ok (append_path ''drfs'' ''Detective-EX'') 1024 initial_globals
               = (0, initial_globals\<lparr>engine_calls :=
                     [InitializeIsotopeIdCalibrated ''gadras_isotope_id_run_directory'' ''drfs/Detective-EX'' 1024],
                     g_gad_drf := ''drfs/Detective-EX'', g_gad_nchannel := 1024, g_gad_calibrated := True\<rparr>)"
    by (simp add: init_gadras_drf_calibrated_def call_engine_def engine_ok_def initial_globals_def
          append_path_def)
  have c: "check_init_results 0 = None"
    by (simp add: check_init_results_def)
  from C10_simple_validation [OF b1, of engine_ok stages_trivial False initial_globals] b2 bc
  have p1: "\<exists>e. what e \<noteq> ''''
        \<and> do_simple_analysis engine_ok stages_trivial False ?bad initial_globals
            = ([Invoked 7 ((simple_result ?bad)\<lparr>error_message := what e\<rparr>)], initial_globals)"
    by auto
  from C10_simple_validation [OF o1, of engine_ok stages_trivial False initial_globals] o2
  obtain f fg' where
    f: "input ?ok = Some f"
       "do_simple_analysis engine_ok stages_trivial False ?ok initial_globals =
          (let (init_code, g1) = init_gadras_drf_calibrated engine_ok
                   (append_path ''drfs'' (drf_folder ?ok)) (of_nat (file_num_gamma_channels f)) initial_globals;
               result1 = (simple_result ?ok)\<lparr>gadras_intialization_error := init_code\<rparr>;
               (result2, g2) = catch_exception
                  (case check_init_results init_code of
                     Some e \<Rightarrow> (Some e, result1, g1)
                   | None \<Rightarrow> static_stage stages_trivial fg' (filter is_background (measurements f)) result1 g1)
           in (deliver False ?ok result2, g2))"
    by blast
  from f(1) i(1) have ff: "f = file_fore_back" by simp
  have p2: "do_simple_analysis engine_ok stages_trivial False ?ok initial_globals
       = ([Invoked 7 ((simple_result ?ok)\<lparr>gadras_intialization_error := 0, gadras_analysis_error := 0\<rparr>)],
          initial_globals\<lparr>engine_calls :=
              [InitializeIsotopeIdCalibrated ''gadras_isotope_id_run_directory'' ''drfs/Detective-EX'' 1024],
              g_gad_drf := ''drfs/Detective-EX'', g_gad_nchannel := 1024, g_gad_calibrated := True\<rparr>)"
    unfolding f(2) ff i(2) fg by (simp add: init c stages_trivial_def catch_exception_def d)
  show ?thesis using b1 b2 p1 o1 o2 p2 by blast
qed

text \<open>
  Claim C10 as stated fails: a null input file is rejected, but with a callback, a session
  identifier and no server instance the callback is not called.
\<close>

theorem C10_counterexample:
  "spec_simple_rejects (input (request Simple ''session-1'' None))
   \<and> callback (request Simple ''session-1'' None) = Some 7
   \<and> fst (do_simple_analysis engine_ok stages_trivial False (request Simple ''session-1'' None)
            initial_globals) = []"
  by (simp add: do_simple_analysis_eq deliver_def request_def spec_simple_rejects_def)


section \<open>Delivery of results\<close>

lemma deliver_cases:
  assumes "callback inp = Some cb"
  shows "deliver server inp result =
           (if wt_app_id inp = '''' then [Invoked cb result]
            else if server then [Posted (wt_app_id inp) cb result] else [])"
  using assms by (simp add: deliver_def)

lemma dispatch_request_eq:
  "dispatch_request eng st server inp g =
     (deliver server inp (fst (catch_exception (try_block eng st inp g))),
      snd (catch_exception (try_block eng st inp g)))"
  by (cases "analysis_type inp")
     (simp_all add: dispatch_request_def try_block_def do_simple_analysis_def
        do_search_analysis_def do_portal_analysis_def split: prod.split)

text \<open>
  Claim C3, as the code has it. A request with a non-empty callback is dispatched to one
  strategy, whose \<^verbatim>\<open>try\<close> block either completes or throws; a thrown exception is caught
  in the strategy and its message stored in \<open>error_message\<close> of the result. The result is
  then handed over at most once: the callback is called once, directly, when the session
  identifier is empty; it is posted once to the session when the identifier is non-empty
  and a server instance exists; and it is not called at all when the identifier is
  non-empty and there is no server instance.
\<close>

theorem C3_dispatch_delivery:
  assumes "callback inp = Some cb"
  shows "\<exists>result g'.
           dispatch_request eng st server inp g =
             ((if wt_app_id inp = '''' then [Invoked cb result]
               else if server then [Posted (wt_app_id inp) cb result] else []), g')
         \<and> (\<forall>e r0 g0. try_block eng st inp g = (Some e, r0, g0)
                \<longrightarrow> result = r0\<lparr>error_message := what e\<rparr> \<and> g' = g0)
         \<and> (\<forall>r0 g0. try_block eng st inp g = (None, r0, g0) \<longrightarrow> result = r0 \<and> g' = g0)"
proof -
  let ?c = "catch_exception (try_block eng st inp g)"
  have 1: "dispatch_request eng st server inp g =
             ((if wt_app_id inp = '''' then [Invoked cb (fst ?c)]
               else if server then [Posted (wt_app_id inp) cb (fst ?c)] else []), snd ?c)"
    by (simp only: dispatch_request_eq deliver_cases [OF assms])
  have 2: "\<forall>e r0 g0. try_block eng st inp g = (Some e, r0, g0)
                \<longrightarrow> fst ?c = r0\<lparr>error_message := what e\<rparr> \<and> snd ?c = g0"
    by (simp add: catch_exception_def)
  have 3: "\<forall>r0 g0. try_block eng st inp g = (None, r0, g0) \<longrightarrow> fst ?c = r0 \<and> snd ?c = g0"
    by (simp add: catch_exception_def)
  from 1 2 3 show ?thesis by blast
qed

theorem C3_dispatch_delivery_witness:
  "callback (request Search '''' None) = Some 7
   \<and> (\<exists>result g'.
         dispatch_request engine_ok stages_trivial False (request Search '''' None) initial_globals
           = ([Invoked 7 result], g')
         \<and> error_message result = ''Invalid input SpecUtils::SpecFile ptr'')"
proof -
  let ?r = "request Search '''' None"
  have c: "callback ?r = Some 7" by (simp add: request_def)
  have w: "wt_app_id ?r = ''''" by (simp add: request_def)
  have t: "try_block engine_ok stages_trivial ?r initial_globals
            = (Some (runtime_error ''Invalid input SpecUtils::SpecFile ptr''), search_result ?r, initial_globals)"
    by (simp add: try_block_def request_def search_try_def)
  from C3_dispatch_delivery [OF c, of engine_ok stages_trivial False initial_globals]
  obtain result g' where
    r: "dispatch_request engine_ok stages_trivial False ?r initial_globals =
             ((if wt_app_id ?r = '''' then [Invoked 7 result]
               else if False then [Posted (wt_app_id ?r) 7 result] else []), g')"
       "\<forall>e r0 g0. try_block engine_ok stages_trivial ?r initial_globals = (Some e, r0, g0)
                \<longrightarrow> result = r0\<lparr>error_message := what e\<rparr> \<and> g' = g0"
    by blast
  from r(2) t have "result = (search_result ?r)\<lparr>error_message := ''Invalid input SpecUtils::SpecFile ptr''\<rparr>"
    by simp
  then have "error_message result = ''Invalid input SpecUtils::SpecFile ptr''" by simp
  moreover from r(1) w have "dispatch_request engine_ok stages_trivial False ?r initial_globals = ([Invoked 7 result], g')"
    by simp
  ultimately show ?thesis using c by blast
qed

text \<open>
  Claim C3 as stated fails: a request with a callback and a session identifier, processed
  while no server instance exists, ends without any call of its callback, for a simple
  analysis that succeeds as well as for a search analysis that fails.
\<close>

theorem C3_counterexample:
  "callback (request Simple ''session-1'' (Some file_fore_back)) = Some 7
   \<and> fst (dispatch_request engine_ok stages_trivial False
            (request Simple ''session-1'' (Some file_fore_back)) initial_globals) = []
   \<and> fst (dispatch_request engine_ok stages_trivial False
            (request Search ''session-1'' None) initial_globals) = []"
  by (simp add: dispatch_request_eq deliver_def request_def)


section \<open>Energy-calibration fits from peaks\<close>

lemma length_foldl_update:
  "length (foldl (\<lambda>r col. r[col := f col]) r0 cols) = length r0"
  by (induction cols arbitrary: r0) auto

lemma frf_design_row_five:
  "frf_design_row 5 n c = Inl (fault ''matrix column index out of range'')"
  by (simp add: frf_design_row_def write_entry_def Let_def length_foldl_update)

text \<open>
  Claim C7 at five full-range-fraction terms. The design matrix has five columns, 0 to 4;
  the powers go to columns 0 to 3 and the term \<open>1 / (1 + 60 x)\<close> is assigned to column 5,
  outside the matrix, for the first point already, whatever the points are (column 4 is
  never written). The basis function \<^verbatim>\<open>frf_coef_fcn\<close> of the peak fit has that term at
  order 4.
\<close>

theorem C7_frf_five_terms_write_out_of_range:
  "fit_for_fullrangefraction_coefs nm (ce # rest) n (5 + k)
     = Inl (fault ''matrix column index out of range'')
   \<and> frf_coef_fcn 4 c n = 1 / (1 + 60 * (c / real n))"
  by (simp add: fit_for_fullrangefraction_coefs_def frf_design_row_five frf_coef_fcn_def)

lemma store_solution_lengths:
  "store_solution nm fs col k a C (cs, us) = (cs', us') \<Longrightarrow> length cs' = length cs \<and> length us' = length us"
  by (induction fs arbitrary: col k cs us) (auto split: if_splits)

lemma store_solution_before:
  "store_solution nm fs col k a C (cs, us) = (cs', us') \<Longrightarrow> j < k \<Longrightarrow> cs' ! j = cs ! j \<and> us' ! j = us ! j"
proof (induction fs arbitrary: col k cs us)
  case Nil
  then show ?case by simp
next
  case (Cons f fs)
  show ?case
  proof (cases f)
    case True
    with Cons.prems(1) have
      "store_solution nm fs (col + 1) (k + 1) a C
         (cs[k := to_float nm (a ! col)], us[k := to_float nm (sqrt (C ! col ! col))]) = (cs', us')"
      by simp
    from Cons.IH [OF this, of] Cons.prems(2) show ?thesis by simp
  next
    case False
    with Cons.prems(1) have "store_solution nm fs col (k + 1) a C (cs, us[k := 0]) = (cs', us')"
      by simp
    from Cons.IH [OF this] Cons.prems(2) show ?thesis by simp
  qed
qed

lemma store_solution_fixed:
  "store_solution nm fs col k a C (cs, us) = (cs', us') \<Longrightarrow> k \<le> j \<Longrightarrow> j < k + length fs
     \<Longrightarrow> \<not> fs ! (j - k) \<Longrightarrow> j < length us \<Longrightarrow> cs' ! j = cs ! j \<and> us' ! j = 0"
proof (induction fs arbitrary: col k cs us)
  case Nil
  then show ?case by simp
next
  case (Cons f fs)
  show ?case
  proof (cases "j = k")
    case True
    with Cons.prems(4) have nf: "\<not> f" by simp
    with Cons.prems(1) have s: "store_solution nm fs col (k + 1) a C (cs, us[k := 0]) = (cs', us')"
      by simp
    from store_solution_before [OF s, of j] True Cons.prems(5) show ?thesis by simp
  next
    case False
    with Cons.prems have j: "k + 1 \<le> j" "j < (k + 1) + length fs" "\<not> fs ! (j - (k + 1))"
      by (auto simp: nth_Cons split: nat.splits) (metis Suc_diff_Suc Suc_lessI diff_Suc_1 le_neq_implies_less)+
    show ?thesis
    proof (cases f)
      case True
      with Cons.prems(1) have
        s: "store_solution nm fs (col + 1) (k + 1) a C
           (cs[k := to_float nm (a ! col)], us[k := to_float nm (sqrt (C ! col ! col))]) = (cs', us')"
        by simp
      from Cons.IH [OF s j] Cons.prems(5) False show ?thesis by simp
    next
      case f: False
      with Cons.prems(1) have s: "store_solution nm fs col (k + 1) a C (cs, us[k := 0]) = (cs', us')"
        by simp
      from Cons.IH [OF s j] Cons.prems(5) False show ?thesis by simp
    qed
  qed
qed

lemma filter_all_length:
  "length (filter P xs) = length xs \<longleftrightarrow> (\<forall>x \<in> set xs. P x)"
proof (induction xs)
  case Nil
  then show ?case by simp
next
  case (Cons x xs)
  have "length (filter P xs) \<noteq> Suc (length xs)"
    using length_filter_le [of P xs] by arith
  with Cons show ?case by auto
qed

lemma nparsfit_fixed:
  "length (filter (\<lambda>b. b) fitfor) \<noteq> length fitfor \<longleftrightarrow> False \<in> set fitfor"
  using filter_all_length [of "\<lambda>b. b" fitfor] by auto

lemma resize_same: "length xs = n \<Longrightarrow> resize n xs = xs"
  by (simp add: resize_def)

lemma length_resize: "length (resize n xs) = n"
  by (simp add: resize_def)

lemma fit_imp_fixed:
  assumes r: "fit_energy_cal_imp nm peaks fitfor n devs coefs unc fcn = Inr (chi2, coefs', unc')"
    and i: "i < length fitfor" "\<not> fitfor ! i"
  shows "coefs' ! i = coefs ! i \<and> unc' ! i = 0"
proof -
  from i have "False \<in> set fitfor" by (metis nth_mem)
  then have nf: "length (filter (\<lambda>b. b) fitfor) \<noteq> length fitfor" by (simp add: nparsfit_fixed)
  with r have len: "length coefs = length fitfor"
    by (auto simp: fit_energy_cal_imp_def Let_def split: if_splits)
  from r obtain a C where
    s: "store_solution nm fitfor 0 0 a C (resize (length fitfor) coefs, resize (length fitfor) unc) = (coefs', unc')"
    by (auto simp: fit_energy_cal_imp_def Let_def split: if_splits option.splits prod.splits)
  from store_solution_fixed [OF s, of i] i
  have "coefs' ! i = resize (length fitfor) coefs ! i \<and> unc' ! i = 0"
    by (simp add: length_resize)
  then show ?thesis by (simp add: resize_same [OF len])
qed

lemma foldl_subtract:
  "foldl (\<lambda>y k. if P k then y else y - g k) y0 ks = y0 - sum_list (map (\<lambda>k. if P k then 0 else g k) ks)"
  for y0 :: real
  by (induction ks arbitrary: y0) auto

lemma target_entry_eq:
  "target_entry nm fitfor n devs coefs fcn p =
     (true_energy nm p - correction_due_to_dev_pairs nm (true_energy nm p) devs
        - (\<Sum>k\<leftarrow>[0..<length fitfor]. if fitfor ! k then 0 else coefs ! k * fcn k (mean_bin nm p) n))
     / \<bar>energy_uncert nm p\<bar>"
  by (simp add: target_entry_def Let_def foldl_subtract)

lemma length_design_row:
  "length (design_row nm fitfor n fcn p) = length (filter (\<lambda>b. b) fitfor)"
proof -
  have "length (filter (\<lambda>k. xs ! k) [0..<length xs]) = length (filter (\<lambda>b. b) xs)" for xs :: "bool list"
  proof -
    have "map (\<lambda>k. xs ! k) [0..<length xs] = xs" by (simp add: map_nth)
    then have "filter (\<lambda>b. b) xs = filter (\<lambda>b. b) (map (\<lambda>k. xs ! k) [0..<length xs])" by simp
    also have "\<dots> = map (\<lambda>k. xs ! k) (filter (\<lambda>k. xs ! k) [0..<length xs])"
      by (simp add: filter_map comp_def)
    finally show ?thesis by (metis length_map)
  qed
  then show ?thesis by (simp add: design_row_def)
qed

lemma store_solution_free:
  "store_solution nm fs col k a C (cs, us) = (cs', us') \<Longrightarrow> k \<le> j \<Longrightarrow> j < k + length fs
     \<Longrightarrow> fs ! (j - k) \<Longrightarrow> j < length cs \<Longrightarrow> j < length us
     \<Longrightarrow> cs' ! j = to_float nm (a ! (col + length (filter (\<lambda>b. b) (take (j - k) fs))))
         \<and> us' ! j = to_float nm (sqrt (C ! (col + length (filter (\<lambda>b. b) (take (j - k) fs)))
                                          ! (col + length (filter (\<lambda>b. b) (take (j - k) fs)))))"
proof (induction fs arbitrary: col k cs us)
  case Nil
  then show ?case by simp
next
  case (Cons f fs)
  show ?case
  proof (cases "j = k")
    case True
    with Cons.prems(4) have f: "f" by simp
    with Cons.prems(1) have
      s: "store_solution nm fs (col + 1) (k + 1) a C
           (cs[k := to_float nm (a ! col)], us[k := to_float nm (sqrt (C ! col ! col))]) = (cs', us')"
      by simp
    from store_solution_before [OF s, of j] True Cons.prems(5,6) show ?thesis by simp
  next
    case False
    with Cons.prems(2) have kj: "k < j" by simp
    then obtain d where d: "j - k = Suc d" "j - (k + 1) = d"
      by (metis Suc_diff_Suc add.commute diff_diff_left plus_1_eq_Suc)
    from kj Cons.prems(3,4) d have j: "k + 1 \<le> j" "j < (k + 1) + length fs" "fs ! (j - (k + 1))"
      by simp_all
    show ?thesis
    proof (cases f)
      case True
      with Cons.prems(1) have
        s: "store_solution nm fs (col + 1) (k + 1) a C
           (cs[k := to_float nm (a ! col)], us[k := to_float nm (sqrt (C ! col ! col))]) = (cs', us')"
        by simp
      from Cons.IH [OF s j] Cons.prems(5,6) True d show ?thesis by simp
    next
      case nf: False
      with Cons.prems(1) have s: "store_solution nm fs col (k + 1) a C (cs, us[k := 0]) = (cs', us')"
        by simp
      from Cons.IH [OF s j] Cons.prems(5,6) nf d show ?thesis by simp
    qed
  qed
qed

lemma fit_imp_result:
  assumes "fit_energy_cal_imp nm peaks fitfor n devs coefs unc fcn = Inr (chi2, coefs', unc')"
  shows "\<exists>C. matrix_invert nm (normal_matrix (length (filter (\<lambda>b. b) fitfor))
                  (map (design_row nm fitfor n fcn) peaks)) = Some C
           \<and> store_solution nm fitfor 0 0
                (mat_vec C (normal_vector (length (filter (\<lambda>b. b) fitfor))
                   (map (design_row nm fitfor n fcn) peaks)
                   (map (target_entry nm fitfor n devs coefs fcn) peaks))) C
                (resize (length fitfor) coefs, resize (length fitfor) unc) = (coefs', unc')"
  using assms
  by (auto simp: fit_energy_cal_imp_def Let_def split: if_splits option.splits prod.splits)

lemma fit_imp_free:
  assumes r: "fit_energy_cal_imp nm peaks fitfor n devs coefs unc fcn = Inr (chi2, coefs', unc')"
  shows "\<exists>C. matrix_invert nm (normal_matrix (length (filter (\<lambda>b. b) fitfor))
                  (map (design_row nm fitfor n fcn) peaks)) = Some C
           \<and> (\<forall>i < length fitfor. fitfor ! i \<longrightarrow>
                 coefs' ! i = to_float nm
                    (mat_vec C (normal_vector (length (filter (\<lambda>b. b) fitfor))
                       (map (design_row nm fitfor n fcn) peaks)
                       (map (target_entry nm fitfor n devs coefs fcn) peaks))
                     ! length (filter (\<lambda>b. b) (take i fitfor)))
               \<and> unc' ! i = to_float nm (sqrt (C ! length (filter (\<lambda>b. b) (take i fitfor))
                                                 ! length (filter (\<lambda>b. b) (take i fitfor)))))"
proof -
  from fit_imp_result [OF r] obtain C where
    C: "matrix_invert nm (normal_matrix (length (filter (\<lambda>b. b) fitfor))
                  (map (design_row nm fitfor n fcn) peaks)) = Some C"
    and s: "store_solution nm fitfor 0 0
                (mat_vec C (normal_vector (length (filter (\<lambda>b. b) fitfor))
                   (map (design_row nm fitfor n fcn) peaks)
                   (map (target_entry nm fitfor n devs coefs fcn) peaks))) C
                (resize (length fitfor) coefs, resize (length fitfor) unc) = (coefs', unc')"
    by blast
  have "coefs' ! i = to_float nm
                    (mat_vec C (normal_vector (length (filter (\<lambda>b. b) fitfor))
                       (map (design_row nm fitfor n fcn) peaks)
                       (map (target_entry nm fitfor n devs coefs fcn) peaks))
                     ! length (filter (\<lambda>b. b) (take i fitfor)))
               \<and> unc' ! i = to_float nm (sqrt (C ! length (filter (\<lambda>b. b) (take i fitfor))
                                                 ! length (filter (\<lambda>b. b) (take i fitfor))))"
    if "i < length fitfor" "fitfor ! i" for i
    using store_solution_free [OF s, of i] that by (simp add: length_resize)
  with C show ?thesis by blast
qed

lemma design_row_explicit:
  "design_row nm fitfor n fcn =
     (\<lambda>p. map (\<lambda>k. fcn k (mean_bin nm p) n / \<bar>energy_uncert nm p\<bar>)
              (filter (\<lambda>k. fitfor ! k) [0..<length fitfor]))"
  by (rule ext) (simp add: design_row_def)

lemma target_entry_explicit:
  "target_entry nm fitfor n devs coefs fcn =
     (\<lambda>p. (true_energy nm p - correction_due_to_dev_pairs nm (true_energy nm p) devs
            - (\<Sum>k\<leftarrow>[0..<length fitfor]. if fitfor ! k then 0 else coefs ! k * fcn k (mean_bin nm p) n))
           / \<bar>energy_uncert nm p\<bar>)"
  by (rule ext) (rule target_entry_eq)

text \<open>
  Claim C4. When the polynomial or the full-range-fraction fit returns, a coefficient
  whose fit-for entry is false has the value that was passed in, and its uncertainty is 0.
  The coefficients whose fit-for entry is true are the solution of the normal equations
  of a system that has one column for each of them and whose right-hand side is, for each
  peak, the energy of the peak, less the deviation-pair correction, less the terms of the
  fixed coefficients, over the uncertainty: the \<open>j\<close>-th fitted coefficient is entry \<open>j\<close> of
  the inverse of the normal matrix applied to the normal vector, and its uncertainty the
  square root of entry \<open>(j, j)\<close> of that inverse.
\<close>

theorem C4_fixed_coefficients:
  assumes "(fit = fit_energy_cal_poly nm \<and> fcn = poly_coef_fcn)
           \<or> (fit = fit_energy_cal_frf nm \<and> fcn = frf_coef_fcn)"
    and "fit peaks fitfor n devs coefs unc = Inr (chi2, coefs', unc')"
  shows "(\<forall>i < length fitfor. \<not> fitfor ! i \<longrightarrow> coefs' ! i = coefs ! i \<and> unc' ! i = 0)
       \<and> (\<exists>C. matrix_invert nm
                  (normal_matrix (length (filter (\<lambda>b. b) fitfor))
                     (map (\<lambda>p. map (\<lambda>k. fcn k (mean_bin nm p) n / \<bar>energy_uncert nm p\<bar>)
                                   (filter (\<lambda>k. fitfor ! k) [0..<length fitfor])) peaks)) = Some C
              \<and> (\<forall>i < length fitfor. fitfor ! i \<longrightarrow>
                    coefs' ! i = to_float nm
                      (mat_vec C
                         (normal_vector (length (filter (\<lambda>b. b) fitfor))
                            (map (\<lambda>p. map (\<lambda>k. fcn k (mean_bin nm p) n / \<bar>energy_uncert nm p\<bar>)
                                          (filter (\<lambda>k. fitfor ! k) [0..<length fitfor])) peaks)
                            (map (\<lambda>p. (true_energy nm p
                                         - correction_due_to_dev_pairs nm (true_energy nm p) devs
                                         - (\<Sum>k\<leftarrow>[0..<length fitfor].
                                              if fitfor ! k then 0
                                              else coefs ! k * fcn k (mean_bin nm p) n))
                                        / \<bar>energy_uncert nm p\<bar>) peaks))
                       ! length (filter (\<lambda>b. b) (take i fitfor)))
                  \<and> unc' ! i = to_float nm (sqrt (C ! length (filter (\<lambda>b. b) (take i fitfor))
                                                    ! length (filter (\<lambda>b. b) (take i fitfor))))))"
proof -
  from assms have r: "fit_energy_cal_imp nm peaks fitfor n devs coefs unc fcn = Inr (chi2, coefs', unc')"
    by (auto simp: fit_energy_cal_poly_def fit_energy_cal_frf_def)
  have 1: "\<forall>i < length fitfor. \<not> fitfor ! i \<longrightarrow> coefs' ! i = coefs ! i \<and> unc' ! i = 0"
    using fit_imp_fixed [OF r] by blast
  from fit_imp_free [OF r] 1 show ?thesis
    unfolding design_row_explicit target_entry_explicit by blast
qed

lemma fit_imp_underdetermined:
  "length peaks < length (filter (\<lambda>b. b) fitfor) \<Longrightarrow> isl (fit_energy_cal_imp nm peaks fitfor n devs coefs unc fcn)"
  by (simp add: fit_energy_cal_imp_def Let_def)

lemma fit_imp_missing_coefs:
  "False \<in> set fitfor \<Longrightarrow> length coefs \<noteq> length fitfor
     \<Longrightarrow> isl (fit_energy_cal_imp nm peaks fitfor n devs coefs unc fcn)"
  using nparsfit_fixed [of fitfor] by (simp add: fit_energy_cal_imp_def Let_def)

lemma fit_imp_succeeds:
  assumes "1 \<le> length (filter (\<lambda>b. b) fitfor)"
    and "\<not> length peaks < length (filter (\<lambda>b. b) fitfor)"
    and "\<not> (False \<in> set fitfor \<and> length coefs \<noteq> length fitfor)"
    and "matrix_invert nm (normal_matrix (length (filter (\<lambda>b. b) fitfor))
            (map (design_row nm fitfor n fcn) peaks)) \<noteq> None"
  shows "\<not> isl (fit_energy_cal_imp nm peaks fitfor n devs coefs unc fcn)"
  using assms nparsfit_fixed [of fitfor]
  by (auto simp: fit_energy_cal_imp_def Let_def split: prod.splits)

text \<open>
  Claim C8, as the code has it. The fit fails when there are fewer peaks than coefficients
  to fit, and when a coefficient is fixed but the coefficient vector has not the size of
  the fit-for mask. It returns when neither is the case, at least one coefficient is
  fitted, and the matrix of the normal equations is inverted.
\<close>

theorem C8_fit_preconditions:
  "(length peaks < length (filter (\<lambda>b. b) fitfor)
      \<longrightarrow> isl (fit_energy_cal_imp nm peaks fitfor n devs coefs unc fcn))
   \<and> (False \<in> set fitfor \<and> length coefs \<noteq> length fitfor
      \<longrightarrow> isl (fit_energy_cal_imp nm peaks fitfor n devs coefs unc fcn))
   \<and> (1 \<le> length (filter (\<lambda>b. b) fitfor)
      \<and> \<not> length peaks < length (filter (\<lambda>b. b) fitfor)
      \<and> \<not> (False \<in> set fitfor \<and> length coefs \<noteq> length fitfor)
      \<and> matrix_invert nm (normal_matrix (length (filter (\<lambda>b. b) fitfor))
            (map (design_row nm fitfor n fcn) peaks)) \<noteq> None
      \<longrightarrow> \<not> isl (fit_energy_cal_imp nm peaks fitfor n devs coefs unc fcn))"
  using fit_imp_underdetermined [of peaks fitfor nm n devs coefs unc fcn]
        fit_imp_missing_coefs [of fitfor coefs nm peaks n devs unc fcn]
        fit_imp_succeeds [of fitfor peaks coefs nm n fcn devs unc]
  by blast


lemma numerics_exact_simps:
  "lu_invert numerics_exact = invert_small"
  "to_float numerics_exact x = x"
  "correction_due_to_dev_pairs numerics_exact e d = 0"
  "deviation_pair_correction numerics_exact e d = 0"
  by (simp_all add: numerics_exact_def)

lemma design_661:
  "design_row numerics_exact [False, True] 1024 poly_coef_fcn peak_661 = [250000 / 661]"
  "design_row numerics_exact [False, True] 1024 frf_coef_fcn peak_661 = [(500 / 1024) / (661 / 500)]"
  by (simp_all add: design_row_def mean_bin_def energy_uncert_def true_energy_def numerics_exact_simps
        peak_661_def poly_coef_fcn_def frf_coef_fcn_def upt_rec)

lemma invertible_661:
  "matrix_invert numerics_exact (normal_matrix (length (filter (\<lambda>b. b) [False, True]))
      (map (design_row numerics_exact [False, True] 1024 poly_coef_fcn) [peak_661])) \<noteq> None"
  "matrix_invert numerics_exact (normal_matrix (length (filter (\<lambda>b. b) [False, True]))
      (map (design_row numerics_exact [False, True] 1024 frf_coef_fcn) [peak_661])) \<noteq> None"
  by (simp_all add: design_661 normal_matrix_def matrix_invert_def numerics_exact_simps)

lemma peak_661_vectors:
  "mean_bin numerics_exact peak_661 = 500"
  "true_energy numerics_exact peak_661 = 661"
  "energy_uncert numerics_exact peak_661 = 661 / 500"
  by (simp_all add: mean_bin_def true_energy_def energy_uncert_def numerics_exact_simps peak_661_def)

lemma free_columns: "filter (\<lambda>k. [False, True] ! k) [0..<length [False, True]] = [1]"
  by (simp add: upt_rec)

theorem C4_fixed_coefficients_witness:
  "(\<exists>chi2 cs us.
       fit_energy_cal_poly numerics_exact [peak_661] [False, True] 1024 [] [5, 1] [7, 7] = Inr (chi2, cs, us)
       \<and> cs ! 0 = 5 \<and> us ! 0 = 0 \<and> cs ! 1 = 164 / 125)
   \<and> (\<exists>chi2 cs us.
       fit_energy_cal_frf numerics_exact [peak_661] [False, True] 1024 [] [5, 1] [7, 7] = Inr (chi2, cs, us)
       \<and> cs ! 0 = 5 \<and> us ! 0 = 0 \<and> cs ! 1 = 167936 / 125)"
proof -
  have "\<not> isl (fit_energy_cal_imp numerics_exact [peak_661] [False, True] 1024 [] [5, 1] [7, 7] poly_coef_fcn)"
    by (rule fit_imp_succeeds) (use invertible_661 in simp_all)
  then obtain chi2 cs us where
    p: "fit_energy_cal_poly numerics_exact [peak_661] [False, True] 1024 [] [5, 1] [7, 7] = Inr (chi2, cs, us)"
    unfolding fit_energy_cal_poly_def
    by (cases "fit_energy_cal_imp numerics_exact [peak_661] [False, True] 1024 [] [5, 1] [7, 7] poly_coef_fcn")
       auto
  have "\<not> isl (fit_energy_cal_imp numerics_exact [peak_661] [False, True] 1024 [] [5, 1] [7, 7] frf_coef_fcn)"
    by (rule fit_imp_succeeds) (use invertible_661 in simp_all)
  then obtain chi2' cs' us' where
    f: "fit_energy_cal_frf numerics_exact [peak_661] [False, True] 1024 [] [5, 1] [7, 7] = Inr (chi2', cs', us')"
    unfolding fit_energy_cal_frf_def
    by (cases "fit_energy_cal_imp numerics_exact [peak_661] [False, True] 1024 [] [5, 1] [7, 7] frf_coef_fcn")
       auto
  note tp = C4_fixed_coefficients [of "fit_energy_cal_poly numerics_exact" numerics_exact poly_coef_fcn
              "[peak_661]" "[False, True]" 1024 "[]" "[5, 1]" "[7, 7]" chi2 cs us, OF _ p]
  note tf = C4_fixed_coefficients [of "fit_energy_cal_frf numerics_exact" numerics_exact frf_coef_fcn
              "[peak_661]" "[False, True]" 1024 "[]" "[5, 1]" "[7, 7]" chi2' cs' us', OF _ f]
  have p0: "cs ! 0 = 5 \<and> us ! 0 = 0" using tp by simp
  have f0: "cs' ! 0 = 5 \<and> us' ! 0 = 0" using tf by simp
  have p1: "cs ! 1 = 164 / 125"
    using tp
    by (simp add: free_columns peak_661_vectors poly_coef_fcn_def normal_matrix_def normal_vector_def
          mat_vec_def matrix_invert_def numerics_exact_simps upt_rec)
  have f1: "cs' ! 1 = 167936 / 125"
    using tf
    by (simp add: free_columns peak_661_vectors frf_coef_fcn_def normal_matrix_def normal_vector_def
          mat_vec_def matrix_invert_def numerics_exact_simps upt_rec)
  from p f p0 f0 p1 f1 show ?thesis by blast
qed

theorem C8_fit_preconditions_witness:
  "length [peak_661] < length (filter (\<lambda>b. b) [True, True])
   \<and> isl (fit_energy_cal_imp numerics_exact [peak_661] [True, True] 1024 [] [0, 1] [0, 0] poly_coef_fcn)
   \<and> False \<in> set [False, True] \<and> length ([] :: real list) \<noteq> length [False, True]
   \<and> isl (fit_energy_cal_imp numerics_exact [peak_661] [False, True] 1024 [] [] [] poly_coef_fcn)
   \<and> 1 \<le> length (filter (\<lambda>b. b) [False, True])
   \<and> \<not> length [peak_661] < length (filter (\<lambda>b. b) [False, True])
   \<and> \<not> (False \<in> set [False, True] \<and> length [0, 1 :: real] \<noteq> length [False, True])
   \<and> \<not> isl (fit_energy_cal_imp numerics_exact [peak_661] [False, True] 1024 [] [0, 1] [0, 0] poly_coef_fcn)"
  using C8_fit_preconditions [of "[peak_661]" "[True, True]" numerics_exact 1024 "[]" "[0, 1]" "[0, 0]" poly_coef_fcn]
        C8_fit_preconditions [of "[peak_661]" "[False, True]" numerics_exact 1024 "[]" "[]" "[]" poly_coef_fcn]
        C8_fit_preconditions [of "[peak_661]" "[False, True]" numerics_exact 1024 "[]" "[0, 1]" "[0, 0]" poly_coef_fcn]
        invertible_661 (1)
  by simp

text \<open>
  Claim C8 as stated fails: with one peak and a mask that fixes its only coefficient, whose
  value is supplied, neither of the two conditions holds and the (empty) matrix of the
  normal equations is inverted, yet the fit fails, for want of a coefficient to fit.
\<close>

theorem C8_counterexample:
  "\<not> length [peak_661] < length (filter (\<lambda>b. b) [False])
   \<and> \<not> (False \<in> set [False] \<and> length [1 :: real] \<noteq> length [False])
   \<and> matrix_invert numerics_exact (normal_matrix (length (filter (\<lambda>b. b) [False]))
        (map (design_row numerics_exact [False] 1024 poly_coef_fcn) [peak_661])) \<noteq> None
   \<and> fit_energy_cal_poly numerics_exact [peak_661] [False] 1024 [] [1] [0]
        = Inl (runtime_error ''Must fit for at least one coefficient'')"
  by (simp add: fit_energy_cal_poly_def fit_energy_cal_imp_def normal_matrix_def matrix_invert_def
        numerics_exact_simps)


section \<open>Fits from channel energies\<close>



lemma channel_fit_singular:
  assumes "matrix_invert nm (normal_matrix k (channel_design fcn k (length es))) = None"
  shows "isl (fit_from_channel_energies_imp nm k es fcn)"
  using assms by (auto simp: fit_from_channel_energies_imp_def Let_def)













section \<open>Propagation of a calibration change\<close>

lemma propagate_rejects:
  "\<not> propagation_input_ok h orig new other \<Longrightarrow>
     propogate_energy_cal_change su nm h orig new other
       = Inl (runtime_error ''EnergyCal::propogate_energy_cal_change invalid input'')"
  by (auto simp: propagation_input_ok_def propogate_energy_cal_change_def split: option.splits)

lemma propagate_identity:
  "propagation_input_ok h orig new other \<Longrightarrow> orig = new \<Longrightarrow>
     propogate_energy_cal_change su nm h orig new other = Inr (h, other)"
  by (auto simp: propagation_input_ok_def propogate_energy_cal_change_def split: option.splits)

lemma propagate_lower_edge_fresh:
  "propagate_lower_edge su nm h oc nc tc = Inr r \<Longrightarrow> \<exists>c. r = (h @ [c], Some (length h))"
  by (auto simp: propagate_lower_edge_def allocate_def Let_def split: option.splits if_splits sum.splits)

lemma propagate_by_fit_fresh:
  "propagate_by_fit su nm h oc nc tc = Inr r \<Longrightarrow> \<exists>c. r = (h @ [c], Some (length h))"
  by (auto simp: propagate_by_fit_def allocate_def Let_def split: sum.splits)

lemma propagate_distinct:
  assumes "propagation_input_ok h orig new other" "orig \<noteq> new"
    and "propogate_energy_cal_change su nm h orig new other = Inr r"
  shows "\<exists>c. r = (h @ [c], Some (length h)) \<and> Some (length h) \<noteq> other
             \<and> deref (h @ [c]) other = deref h other"
proof -
  from assms(1) obtain oc nc tc where d: "deref h orig = Some oc" "deref h new = Some nc" "deref h other = Some tc"
    by (auto simp: propagation_input_ok_def split: option.splits)
  from d(3) obtain a where a: "other = Some a" "a < length h"
    by (auto simp: deref_def split: option.splits if_splits)
  from assms d have "propagate_lower_edge su nm h oc nc tc = Inr r \<or> propagate_by_fit su nm h oc nc tc = Inr r"
    by (auto simp: propogate_energy_cal_change_def propagation_input_ok_def split: if_splits)
  then obtain c where "r = (h @ [c], Some (length h))"
    using propagate_lower_edge_fresh propagate_by_fit_fresh by blast
  with a show ?thesis by (auto simp: deref_def nth_append)
qed

text \<open>
  Claim C6. For calibrations that the propagator accepts (none null, all valid, original
  and new not given by lower channel energies): when the original and the new calibration
  are the same object, the result is the pointer to the other calibration that was passed
  in, and no object is made; when they are different objects, also with equal values, the
  call either fails or returns a pointer to a newly made object, which is not the pointer
  to the other calibration. Inputs that are not accepted give an exception.
\<close>

theorem C6_propagation_identity:
  "(propagation_input_ok h orig new other \<and> orig = new
      \<longrightarrow> propogate_energy_cal_change su nm h orig new other = Inr (h, other))
   \<and> (propagation_input_ok h orig new other \<and> orig \<noteq> new
      \<longrightarrow> isl (propogate_energy_cal_change su nm h orig new other)
          \<or> (\<exists>c. propogate_energy_cal_change su nm h orig new other = Inr (h @ [c], Some (length h))
                \<and> Some (length h) \<noteq> other
                \<and> deref (h @ [c]) other = deref h other))
   \<and> (\<not> propagation_input_ok h orig new other
      \<longrightarrow> isl (propogate_energy_cal_change su nm h orig new other))"
proof (intro conjI impI)
  assume "propagation_input_ok h orig new other \<and> orig = new"
  then show "propogate_energy_cal_change su nm h orig new other = Inr (h, other)"
    using propagate_identity by blast
next
  assume a: "propagation_input_ok h orig new other \<and> orig \<noteq> new"
  show "isl (propogate_energy_cal_change su nm h orig new other)
          \<or> (\<exists>c. propogate_energy_cal_change su nm h orig new other = Inr (h @ [c], Some (length h))
                \<and> Some (length h) \<noteq> other
                \<and> deref (h @ [c]) other = deref h other)"
  proof (cases "propogate_energy_cal_change su nm h orig new other")
    case (Inl e)
    then show ?thesis by simp
  next
    case (Inr r)
    from propagate_distinct [OF _ _ Inr] a Inr show ?thesis by auto
  qed
next
  assume "\<not> propagation_input_ok h orig new other"
  then show "isl (propogate_energy_cal_change su nm h orig new other)"
    by (simp add: propagate_rejects)
qed


lemma heap_three_deref:
  "deref heap_three (Some 0) = Some cal_3MeV"
  "deref heap_three (Some 1) = Some cal_3MeV"
  "deref heap_three (Some (Suc 0)) = Some cal_3MeV"
  "deref heap_three (Some 2) = Some (cal_3MeV\<lparr>coefficients := [10, 2]\<rparr>)"
  "deref heap_three None = None"
  "length heap_three = 3"
  by (simp_all add: heap_three_def deref_def)

lemma pairs_three:
  "map_exn (channel_energy_pair specutils_linear cal_3MeV cal_3MeV (cal_3MeV\<lparr>coefficients := [10, 2]\<rparr>) 2) [0..<2]
     = Inr [(1531, 3072), (-5, 0)]"
  by (simp add: channel_energy_pair_def specutils_linear_def cal_3MeV_def upt_rec Let_def)

lemma fit_three:
  "fit_for_poly_coefs numerics_exact [(1531, 3072), (-5, 0)] 2 = Inr [10, 2]"
  by (simp add: fit_for_poly_coefs_def normal_matrix_def normal_vector_def mat_vec_def matrix_invert_def
        numerics_exact_def upt_rec Let_def)

lemma order_three:
  "max (length (coefficients (cal_3MeV\<lparr>coefficients := [10, 2]\<rparr>)))
       (max (length (coefficients cal_3MeV)) (length (coefficients cal_3MeV))) = 2"
  by (simp add: cal_3MeV_def)

lemma by_fit_three:
  "\<not> isl (propagate_by_fit specutils_linear numerics_exact heap_three cal_3MeV cal_3MeV
            (cal_3MeV\<lparr>coefficients := [10, 2]\<rparr>))"
  unfolding propagate_by_fit_def Let_def order_three pairs_three
  by (simp add: fit_three cal_3MeV_def specutils_linear_def allocate_def)

lemma propagate_three:
  "\<not> isl (propogate_energy_cal_change specutils_linear numerics_exact heap_three (Some 0) (Some 1) (Some 2))"
proof -
  have "propogate_energy_cal_change specutils_linear numerics_exact heap_three (Some 0) (Some 1) (Some 2)
          = propagate_by_fit specutils_linear numerics_exact heap_three cal_3MeV cal_3MeV
              (cal_3MeV\<lparr>coefficients := [10, 2]\<rparr>)"
    unfolding propogate_energy_cal_change_def heap_three_deref
    by (simp add: cal_3MeV_def)
  then show ?thesis using by_fit_three by simp
qed

theorem C6_propagation_identity_witness:
  "propagation_input_ok heap_three (Some 0) (Some 0) (Some 2)
   \<and> propogate_energy_cal_change specutils_linear numerics_exact heap_three (Some 0) (Some 0) (Some 2)
       = Inr (heap_three, Some 2)
   \<and> propagation_input_ok heap_three (Some 0) (Some 1) (Some 2)
   \<and> Some (0::nat) \<noteq> Some 1
   \<and> deref heap_three (Some 0) = deref heap_three (Some 1)
   \<and> (\<exists>c. propogate_energy_cal_change specutils_linear numerics_exact heap_three (Some 0) (Some 1) (Some 2)
            = Inr (heap_three @ [c], Some 3))
   \<and> \<not> propagation_input_ok heap_three None (Some 1) (Some 2)
   \<and> isl (propogate_energy_cal_change specutils_linear numerics_exact heap_three None (Some 1) (Some 2))"
proof -
  have ok1: "propagation_input_ok heap_three (Some 0) (Some 0) (Some 2)"
    by (simp add: propagation_input_ok_def heap_three_deref) (simp add: cal_3MeV_def)
  have ok2: "propagation_input_ok heap_three (Some 0) (Some 1) (Some 2)"
    by (simp add: propagation_input_ok_def heap_three_deref) (simp add: cal_3MeV_def)
  have bad: "\<not> propagation_input_ok heap_three None (Some 1) (Some 2)"
    by (simp add: propagation_input_ok_def heap_three_deref)
  have ne: "Some (0::nat) \<noteq> Some 1" by simp
  have same: "deref heap_three (Some 0) = deref heap_three (Some 1)"
    by (simp add: heap_three_deref)
  note t1 = C6_propagation_identity [of heap_three "Some 0" "Some 0" "Some 2" specutils_linear numerics_exact]
  note t2 = C6_propagation_identity [of heap_three "Some 0" "Some 1" "Some 2" specutils_linear numerics_exact]
  note t3 = C6_propagation_identity [of heap_three None "Some 1" "Some 2" specutils_linear numerics_exact]
  have a: "propogate_energy_cal_change specutils_linear numerics_exact heap_three (Some 0) (Some 0) (Some 2)
       = Inr (heap_three, Some 2)"
    using t1 ok1 by simp
  have b: "\<exists>c. propogate_energy_cal_change specutils_linear numerics_exact heap_three (Some 0) (Some 1) (Some 2)
            = Inr (heap_three @ [c], Some 3)"
    using t2 ok2 ne propagate_three heap_three_deref(6) by auto
  have c: "isl (propogate_energy_cal_change specutils_linear numerics_exact heap_three None (Some 1) (Some 2))"
    using t3 bad by simp
  show ?thesis using ok1 ok2 bad ne same a b c by blast
qed


end
